theory Spec2Isabelle
  imports Complex_Main "HOL-Library.Word" "HOL-Library.Sublist"
begin

chapter \<open>An OKX trading client: REST signing and classification, order lifecycle,
  account stream breaker, portfolio snapshot\<close>

text \<open>
  The development has two parts. The first embeds the Python sources function by
  function: \<^verbatim>\<open>exchange/okx_rest.py\<close>, \<^verbatim>\<open>exchange/okx_ws_private.py\<close>,
  \<^verbatim>\<open>execution/order_manager.py\<close>, \<^verbatim>\<open>execution/portfolio.py\<close> and \<^verbatim>\<open>data/store.py\<close>.
  The second states and proves the properties.

  Conventions of the embedding.
  \<^item> Python \<^verbatim>\<open>float\<close> and \<^verbatim>\<open>Decimal\<close> values are real numbers (every double is one). The
    float arithmetic of the margin gate, whose comparison the rounding can decide, goes
    through the library parameters \<open>fmul\<close> and \<open>fdiv\<close>; elsewhere the arithmetic is that of
    the reals, and the 28 digit precision of the decimal context is outside the model.
  \<^item> A JSON object of the exchange is a map from field names to strings (the exchange
    documents every field of its envelopes as a string); a missing field and a JSON
    \<^verbatim>\<open>null\<close> are both \<open>None\<close>.
  \<^item> An exception is a value \<open>Inl e\<close> of the sum type \<open>err + 'a\<close>.
  \<^item> Functions of the Python standard library that the sources only call (HMAC, SHA-1,
    \<^verbatim>\<open>urlencode\<close>, \<^verbatim>\<open>json.dumps\<close>, \<^verbatim>\<open>repr\<close>, \<^verbatim>\<open>float\<close> and \<^verbatim>\<open>str\<close> on floats) are
    parameters, collected in the record \<open>pylib\<close>.
  \<^item> The network and the clock are inputs: every call that reads them takes the reading
    or the reply as an argument, and every call sent to a collaborator is appended to a log.
\<close>

section \<open>Python idioms\<close>

text \<open>\<^verbatim>\<open>x or d\<close> on an optional number, an optional string, and truthiness of a string.\<close>

definition or_num :: "real option \<Rightarrow> real \<Rightarrow> real" where
  "or_num x d = (case x of None \<Rightarrow> d | Some v \<Rightarrow> if v = 0 then d else v)"

definition or_int :: "int option \<Rightarrow> int \<Rightarrow> int" where
  "or_int x d = (case x of None \<Rightarrow> d | Some v \<Rightarrow> if v = 0 then d else v)"

definition or_str :: "string option \<Rightarrow> string \<Rightarrow> string" where
  "or_str x d = (case x of None \<Rightarrow> d | Some s \<Rightarrow> if s = [] then d else s)"

definition truthy :: "string option \<Rightarrow> bool" where
  "truthy x = (case x of None \<Rightarrow> False | Some s \<Rightarrow> s \<noteq> [])"

text \<open>\<^verbatim>\<open>str.upper\<close> and \<^verbatim>\<open>str.lower\<close> on ASCII letters, and \<^verbatim>\<open>str.strip\<close>. Characters are
  the 8-bit characters of HOL (code points 0 to 255); the characters that \<^verbatim>\<open>str.isspace\<close>
  accepts in this range are the space, U+0009 to U+000D, U+001C to U+001F, U+0085 and
  U+00A0.\<close>

definition py_upper_char :: "char \<Rightarrow> char" where
  "py_upper_char c =
     (case map_of (zip ''abcdefghijklmnopqrstuvwxyz'' ''ABCDEFGHIJKLMNOPQRSTUVWXYZ'') c of
        None \<Rightarrow> c | Some u \<Rightarrow> u)"

definition py_lower_char :: "char \<Rightarrow> char" where
  "py_lower_char c =
     (case map_of (zip ''ABCDEFGHIJKLMNOPQRSTUVWXYZ'' ''abcdefghijklmnopqrstuvwxyz'') c of
        None \<Rightarrow> c | Some l \<Rightarrow> l)"

definition upper :: "string \<Rightarrow> string" where
  "upper s = map py_upper_char s"

definition lower :: "string \<Rightarrow> string" where
  "lower s = map py_lower_char s"

definition is_space :: "char \<Rightarrow> bool" where
  "is_space c = (c \<in> set [CHR '' '', CHR 0x09, CHR 0x0A, CHR 0x0B, CHR 0x0C, CHR 0x0D,
                            CHR 0x1C, CHR 0x1D, CHR 0x1E, CHR 0x1F, CHR 0x85, CHR 0xA0])"

definition strip :: "string \<Rightarrow> string" where
  "strip s = rev (dropWhile is_space (rev (dropWhile is_space s)))"

text \<open>\<^verbatim>\<open>int(x)\<close> on a float truncates toward zero; \<^verbatim>\<open>str(n)\<close> on an integer is its
  decimal numeral; \<^verbatim>\<open>s.zfill(w)\<close> pads with zeros on the left, after a sign.\<close>

definition py_int :: "real \<Rightarrow> int" where
  "py_int x = (if 0 \<le> x then \<lfloor>x\<rfloor> else \<lceil>x\<rceil>)"

definition dec_digit :: "nat \<Rightarrow> char" where
  "dec_digit n = ''0123456789'' ! n"

fun dec_digits :: "nat \<Rightarrow> string" where
  "dec_digits n = (if n < 10 then [dec_digit n] else dec_digits (n div 10) @ [dec_digit (n mod 10)])"

declare dec_digits.simps [simp del]

definition str_int :: "int \<Rightarrow> string" where
  "str_int i = (if i < 0 then CHR ''-'' # dec_digits (nat (- i)) else dec_digits (nat i))"

definition zfill :: "nat \<Rightarrow> string \<Rightarrow> string" where
  "zfill w s =
     (if w \<le> length s then s
      else case s of
             c # cs \<Rightarrow> if c = CHR ''+'' \<or> c = CHR ''-''
                       then c # replicate (w - length s) CHR ''0'' @ cs
                       else replicate (w - length s) CHR ''0'' @ s
           | [] \<Rightarrow> replicate w CHR ''0'')"

text \<open>\<^verbatim>\<open>"51603" in s\<close>: the substring test.\<close>

definition contains :: "string \<Rightarrow> string \<Rightarrow> bool" where
  "contains p s = sublist p s"

section \<open>Errors and library parameters\<close>

text \<open>One constructor for each \<^verbatim>\<open>raise\<close> of the sources; the arguments are the values the
  message is formatted from.\<close>

datatype err =
    MissingCredentials
  | HttpRequestFailed string
  | HTTPError nat string string string
  | InvalidJson string
  | ApiError string string string
  | ApiError50119 string string string string
  | TradeOpFailed string string string
  | ValueError string
  | OrderNotFound string
  | OtherError string

type_synonym row = "string \<rightharpoonup> string"

record envelope =
  e_code :: "string option"
  e_msg :: "string option"
  e_data :: "row list option"

record pylib =
  hmac_sha256_b64 :: "string \<Rightarrow> string \<Rightarrow> string"
  sha1 :: "string \<Rightarrow> 160 word"
  urlencode :: "(string \<times> string) list \<Rightarrow> string"
  json_dumps :: "(string \<times> string) list \<Rightarrow> string"
  repr_resp :: "envelope \<Rightarrow> string"
  to_float :: "string \<Rightarrow> real option"
  str_float :: "real \<Rightarrow> string"
  fmul :: "real \<Rightarrow> real \<Rightarrow> real"
  fdiv :: "real \<Rightarrow> real \<Rightarrow> real"
  hint_demo :: string
  hint_prod :: string


section \<open>Client order ids (\<^verbatim>\<open>make_cl_ord_id\<close>)\<close>

text \<open>\<^verbatim>\<open>hexdigest()\<close> of a 160 bit digest: forty lower-case hexadecimal digits, most
  significant first.\<close>

definition hex_digit :: "nat \<Rightarrow> char" where
  "hex_digit n = ''0123456789abcdef'' ! n"

definition hexdigest :: "160 word \<Rightarrow> string" where
  "hexdigest w = map (\<lambda>i. hex_digit (unat (and (drop_bit (4 * (39 - i)) w) 15))) [0..<40]"

text \<open>
  \<^verbatim>\<open>
  def make_cl_ord_id(idempotency_key):
      h = hashlib.sha1(idempotency_key.encode("utf-8")).hexdigest()[:20]
      suffix = str(int(time.time() * 1000) % 100000).zfill(5)
      return f"Q{h}{suffix}"
  \<close>
  The argument \<open>now\<close> is the reading of \<^verbatim>\<open>time.time()\<close>.
\<close>

definition make_cl_ord_id :: "pylib \<Rightarrow> string \<Rightarrow> real \<Rightarrow> string" where
  "make_cl_ord_id L idempotency_key now =
     (let h = take 20 (hexdigest (sha1 L idempotency_key));
          suffix = zfill 5 (str_int (py_int (now * 1000) mod 100000))
      in ''Q'' @ h @ suffix)"

section \<open>Rounding to a step (\<^verbatim>\<open>OKXRest._floor_to_step\<close>)\<close>

text \<open>\<^verbatim>\<open>Decimal.to_integral_value(rounding=ROUND_DOWN)\<close> rounds toward zero.\<close>

definition to_integral_round_down :: "real \<Rightarrow> int" where
  "to_integral_round_down q = (if 0 \<le> q then \<lfloor>q\<rfloor> else \<lceil>q\<rceil>)"

text \<open>
  \<^verbatim>\<open>
  def _floor_to_step(self, x, step):
      if step <= 0:
          return float(x)
      xd = Decimal(str(x)); sd = Decimal(str(step))
      q = (xd / sd).to_integral_value(rounding=ROUND_DOWN) * sd
      return float(q)
  \<close>
\<close>

definition floor_to_step :: "real \<Rightarrow> real \<Rightarrow> real" where
  "floor_to_step x step =
     (if step \<le> 0 then x
      else let xd = x; sd = step;
               q = of_int (to_integral_round_down (xd / sd)) * sd
           in q)"

section \<open>Configuration and instrument metadata\<close>

text \<open>The entries of the nested configuration dictionary that the modelled functions read
  (\<^verbatim>\<open>cfg["trade"]\<close>, \<^verbatim>\<open>cfg["account"]\<close>, \<^verbatim>\<open>cfg["exit"]\<close>); \<open>None\<close> is a missing entry.\<close>

record config =
  cfg_inst_id :: "string option"
  cfg_reject_cooldown_sec :: "real option"
  cfg_cooldown_sec :: "real option"
  cfg_max_positions :: "int option"
  cfg_order_timeout_sec :: "real option"
  cfg_cancel_on_timeout :: "bool option"
  cfg_min_avail_usdt :: "real option"
  cfg_margin_buffer_ratio :: "real option"
  cfg_td_mode :: "string option"
  cfg_leverage :: "real option"
  cfg_tp_pct :: "real option"
  cfg_sl_pct :: "real option"

text \<open>\<^verbatim>\<open>exchange/models.py\<close>: the frozen dataclass \<^verbatim>\<open>InstrumentSpec\<close>.\<close>

record instrument_spec =
  inst_id :: string
  ct_val :: real
  lot_sz :: real
  min_sz :: real
  tick_sz :: real

section \<open>The margin gate (\<^verbatim>\<open>OrderManager._margin_gate\<close>)\<close>

text \<open>
  \<^verbatim>\<open>
  lev = float((self.cfg.get("account") or {}).get("leverage", 1) or 1)
  if lev <= 0:
      lev = 1.0
  ...
  buffer_ratio = float((self.cfg.get("trade") or {}).get("margin_buffer_ratio", 0.95) or 0.95)
  \<close>
\<close>

definition gate_leverage :: "config \<Rightarrow> real" where
  "gate_leverage cfg = (let lev = or_num (cfg_leverage cfg) 1 in if lev \<le> 0 then 1 else lev)"

definition gate_buffer_ratio :: "config \<Rightarrow> real" where
  "gate_buffer_ratio cfg = or_num (cfg_margin_buffer_ratio cfg) 0.95"

text \<open>
  The arguments are the readings the method makes: \<open>avail_usdt\<close> is the portfolio's
  available balance, and \<open>spec_res\<close> is the outcome of \<^verbatim>\<open>self.ex._must_spec(inst_id)\<close>
  (\<open>None\<close> when the exchange object has no such method, \<open>Inl\<close> when it raises).
  \<^verbatim>\<open>
  avail = float(getattr(self.portfolio, "avail_usdt", 0.0) or 0.0)
  if avail <= 0: return False
  ...
  if not ct_val or ct_val <= 0:
      min_avail = float(... .get("min_avail_usdt", 5) or 5)
      if avail < min_avail: return False
      return True
  notional = float(last_px) * float(ct_val) * float(sz)
  req_margin = notional / lev
  if req_margin > avail * buffer_ratio: return False
  return True
  \<close>
  The products and the quotient are those of Python floats, which round their result to a
  double: \<open>fmul L\<close> and \<open>fdiv L\<close> are the float product and quotient, so that
  \<open>notional\<close>, \<open>req_margin\<close> and \<open>avail * buffer_ratio\<close> are the values the method computes,
  which can differ from the exact product and quotient in the last place. Comparisons of
  floats are exact.
\<close>

definition margin_gate ::
  "pylib \<Rightarrow> config \<Rightarrow> real \<Rightarrow> (err + instrument_spec) option \<Rightarrow> real \<Rightarrow> real \<Rightarrow> bool" where
  "margin_gate L cfg avail_usdt spec_res last_px sz =
     (let avail = avail_usdt in
      if avail \<le> 0 then False
      else
        let lev = gate_leverage cfg;
            ct = (case spec_res of
                    None \<Rightarrow> None
                  | Some (Inl e) \<Rightarrow> None
                  | Some (Inr spec) \<Rightarrow> Some (ct_val spec))
        in case ct of
             None \<Rightarrow>
               (let min_avail = or_num (cfg_min_avail_usdt cfg) 5
                in if avail < min_avail then False else True)
           | Some c \<Rightarrow>
               if c = 0 \<or> c \<le> 0 then
                 (let min_avail = or_num (cfg_min_avail_usdt cfg) 5
                  in if avail < min_avail then False else True)
               else
                 let notional = fmul L (fmul L last_px c) sz;
                     req_margin = fdiv L notional lev;
                     buffer_ratio = gate_buffer_ratio cfg
                 in if req_margin > fmul L avail buffer_ratio then False else True)"

section \<open>The REST client (\<^verbatim>\<open>exchange/okx_rest.py\<close>)\<close>

text \<open>The fields of \<^verbatim>\<open>OKXRest\<close> that requests depend on.\<close>

record rest_client =
  demo :: bool
  base_url :: string
  api_key :: string
  api_secret :: string
  passphrase :: string

record http_request =
  rq_method :: string
  rq_url :: string
  rq_headers :: "(string \<times> string) list"
  rq_body :: "string option"

text \<open>What \<^verbatim>\<open>requests\<close> hands back: the status line, the body text and, when the body
  parses, the envelope object. A transport failure is \<open>Inl\<close> of the exception's text.\<close>

record http_response =
  status_code :: int
  reason :: string
  r_url :: string
  r_text :: string
  r_json :: "envelope option"

type_synonym reply = "string + http_response"

subsection \<open>Signing\<close>

text \<open>
  \<^verbatim>\<open>
  def _sign(self, ts, method, request_path, body):
      prehash = f"{ts}{method.upper()}{request_path}{body}"
      mac = hmac.new(self.api_secret.encode("utf-8"), prehash.encode("utf-8"), hashlib.sha256)
      return base64.b64encode(mac.digest()).decode("utf-8")
  \<close>
\<close>

definition prehash :: "string \<Rightarrow> string \<Rightarrow> string \<Rightarrow> string \<Rightarrow> string" where
  "prehash ts method request_path body = ts @ upper method @ request_path @ body"

definition sign :: "pylib \<Rightarrow> rest_client \<Rightarrow> string \<Rightarrow> string \<Rightarrow> string \<Rightarrow> string \<Rightarrow> string" where
  "sign L C ts method request_path body =
     hmac_sha256_b64 L (api_secret C) (prehash ts method request_path body)"

definition headers ::
  "pylib \<Rightarrow> rest_client \<Rightarrow> string \<Rightarrow> string \<Rightarrow> string \<Rightarrow> string \<Rightarrow> (string \<times> string) list" where
  "headers L C ts method request_path body =
     [(''OK-ACCESS-KEY'', api_key C),
      (''OK-ACCESS-SIGN'', sign L C ts method request_path body),
      (''OK-ACCESS-TIMESTAMP'', ts),
      (''OK-ACCESS-PASSPHRASE'', passphrase C)]"

subsection \<open>The core request (\<^verbatim>\<open>OKXRest._request\<close>)\<close>

text \<open>
  \<^verbatim>\<open>
  query = urlencode({k: v for k, v in params.items() if v is not None})
  request_path = path + (f"?{query}" if query else "")
  \<close>
\<close>

definition query_of :: "pylib \<Rightarrow> (string \<times> string option) list \<Rightarrow> string" where
  "query_of L params =
     urlencode L (concat (map (\<lambda>(k, v). case v of None \<Rightarrow> [] | Some x \<Rightarrow> [(k, x)]) params))"

definition request_path_of :: "pylib \<Rightarrow> string \<Rightarrow> (string \<times> string option) list \<Rightarrow> string" where
  "request_path_of L path params =
     (let query = query_of L params in path @ (if query \<noteq> [] then ''?'' @ query else []))"

text \<open>
  \<^verbatim>\<open>
  body_str = ""
  if method in ("POST", "PUT"):
      body_str = json.dumps(data, separators=(",", ":"), ensure_ascii=False)
  \<close>
\<close>

definition body_str_of :: "pylib \<Rightarrow> string \<Rightarrow> (string \<times> string) list \<Rightarrow> string" where
  "body_str_of L method data =
     (if method = ''POST'' \<or> method = ''PUT'' then json_dumps L data else [])"

text \<open>
  The first half of \<^verbatim>\<open>_request\<close>, up to the call of the session: the request that is
  sent, or the error raised before anything is sent. \<open>ts\<close> is the reading of
  \<^verbatim>\<open>self._iso_ts()\<close>.
\<close>

definition build_request ::
  "pylib \<Rightarrow> rest_client \<Rightarrow> string \<Rightarrow> string \<Rightarrow> string \<Rightarrow> (string \<times> string option) list \<Rightarrow>
   (string \<times> string) list \<Rightarrow> bool \<Rightarrow> err + http_request" where
  "build_request L C ts method0 path params data auth =
     (let method = upper method0;
          request_path = request_path_of L path params;
          url = base_url C @ request_path;
          body_str = body_str_of L method data
      in if auth \<and> \<not> (api_key C \<noteq> [] \<and> api_secret C \<noteq> [] \<and> passphrase C \<noteq> [])
         then Inl MissingCredentials
         else Inr \<lparr> rq_method = method,
                    rq_url = url,
                    rq_headers =
                      (if auth then headers L C ts method request_path body_str else []) @
                      (if demo C then [(''x-simulated-trading'', ''1'')] else []),
                    rq_body = (if method = ''GET'' \<or> method = ''DELETE'' then None
                               else Some body_str) \<rparr>)"

text \<open>
  The second half: classification of the reply.
  \<^verbatim>\<open>
  if r.status_code >= 400: raise requests.HTTPError(...)
  try: resp = r.json()
  except Exception: raise RuntimeError(f"OKX invalid JSON response: {r.text}")
  code = str(resp.get("code") or ""); msg = str(resp.get("msg") or "")
  if code != "0":
      if code == "50119": raise RuntimeError(... hint ...)
      raise RuntimeError(f"OKX API error: code={code} msg={msg} resp={resp}")
  if path.startswith("/api/v5/trade/"):
      rows = resp.get("data") or []
      if isinstance(rows, list) and rows:
          s_code = str(rows[0].get("sCode") or "0")
          if s_code != "0":
              s_msg = str(rows[0].get("sMsg") or "")
              raise RuntimeError(f"OKX TRADE OP FAILED: sCode={s_code} sMsg={s_msg} resp={resp}")
  return resp
  \<close>
\<close>

definition rows_of :: "envelope \<Rightarrow> row list" where
  "rows_of resp = (case e_data resp of None \<Rightarrow> [] | Some rs \<Rightarrow> rs)"

definition classify :: "pylib \<Rightarrow> rest_client \<Rightarrow> string \<Rightarrow> reply \<Rightarrow> err + envelope" where
  "classify L C path rep =
     (case rep of
        Inl e \<Rightarrow> Inl (HttpRequestFailed e)
      | Inr r \<Rightarrow>
          if 400 \<le> status_code r
          then Inl (HTTPError (nat (status_code r)) (reason r) (r_url r) (r_text r))
          else (case r_json r of
                 None \<Rightarrow> Inl (InvalidJson (r_text r))
               | Some resp \<Rightarrow>
                   let code = or_str (e_code resp) [];
                       msg = or_str (e_msg resp) []
                   in if code \<noteq> ''0'' then
                        (if code = ''50119''
                         then Inl (ApiError50119 code msg
                                     (if demo C then hint_demo L else hint_prod L) (repr_resp L resp))
                         else Inl (ApiError code msg (repr_resp L resp)))
                      else if prefix ''/api/v5/trade/'' path then
                        (case rows_of resp of
                           [] \<Rightarrow> Inr resp
                         | r0 # rest \<Rightarrow>
                             let s_code = or_str (r0 ''sCode'') ''0''
                             in if s_code \<noteq> ''0''
                                then Inl (TradeOpFailed s_code (or_str (r0 ''sMsg'') [])
                                            (repr_resp L resp))
                                else Inr resp)
                      else Inr resp))"

text \<open>One exchange with the server: the request sent and what \<^verbatim>\<open>_request\<close> made of the
  reply. The log of a call is the list of its exchanges, in order.\<close>

type_synonym exchange = "http_request \<times> (err + envelope)"

record call_env =
  ce_ts :: string
  ce_reply :: reply

definition request ::
  "pylib \<Rightarrow> rest_client \<Rightarrow> call_env \<Rightarrow> string \<Rightarrow> string \<Rightarrow> (string \<times> string option) list \<Rightarrow>
   (string \<times> string) list \<Rightarrow> bool \<Rightarrow> exchange list \<times> (err + envelope)" where
  "request L C ce method path params data auth =
     (case build_request L C (ce_ts ce) method path params data auth of
        Inl e \<Rightarrow> ([], Inl e)
      | Inr rq \<Rightarrow> (let res = classify L C path (ce_reply ce) in ([(rq, res)], res)))"

subsection \<open>Order lookup (\<^verbatim>\<open>get_order_by_clordid\<close>, \<^verbatim>\<open>_search_history_paged\<close>,
  \<^verbatim>\<open>get_order_anywhere\<close>)\<close>










text \<open>The pages a lookup has searched: the rows of every page request that came back as
  an envelope, in the order of the log.\<close>

definition pages :: "exchange list \<Rightarrow> row list list" where
  "pages lg = concat (map (\<lambda>(rq, res). case res of Inl e \<Rightarrow> [] | Inr env \<Rightarrow> [rows_of env]) lg)"

section \<open>Example values\<close>

text \<open>A stand-in for the library parameters and a client with credentials, for evaluating
  the model on concrete inputs. The stand-in MAC concatenates key and message, so it never
  collides; the float product and quotient are exact (no rounding); the other functions
  are simple printers.\<close>

definition lib0 :: pylib where
  "lib0 = \<lparr> hmac_sha256_b64 = (\<lambda>k m. k @ ''/'' @ m),
            sha1 = (\<lambda>s. of_nat (length s)),
            urlencode = (\<lambda>kvs. concat (map (\<lambda>(k, v). k @ ''='' @ v @ ''&'') kvs)),
            json_dumps = (\<lambda>kvs. concat (map (\<lambda>(k, v). k @ '':'' @ v @ '','') kvs)),
            repr_resp = (\<lambda>resp. ''{..}''),
            to_float = map_of [(''0'', 0), (''0.5'', 0.5), (''1'', 1), (''7'', 7), (''50'', 50),
                               (''100'', 100), (''1000'', 1000), (''30000'', 30000)],
            str_float = (\<lambda>x. ''<float>''),
            fmul = (\<lambda>x y. x * y),
            fdiv = (\<lambda>x y. x / y),
            hint_demo = ''(demo hint)'',
            hint_prod = ''(prod hint)'' \<rparr>"

definition client0 :: rest_client where
  "client0 = \<lparr> demo = True, base_url = ''https://www.okx.com'', api_key = ''key'',
               api_secret = ''secret'', passphrase = ''pass'' \<rparr>"

definition ok_reply :: "row list \<Rightarrow> call_env" where
  "ok_reply rows =
     \<lparr> ce_ts = ''2020-12-08T09:08:57.715Z'',
       ce_reply = Inr \<lparr> status_code = 200, reason = ''OK'', r_url = [], r_text = [],
                        r_json = Some \<lparr> e_code = Some ''0'', e_msg = Some [],
                                         e_data = Some rows \<rparr> \<rparr> \<rparr>"


text \<open>The same library with the float product rounding as the doubles do at the operands
  of one evaluation: in Python, \<^verbatim>\<open>0.1 * 3.0\<close> is \<^verbatim>\<open>0.30000000000000004\<close>, that times \<^verbatim>\<open>3.0\<close> is
  \<^verbatim>\<open>0.9000000000000001\<close>, and \<^verbatim>\<open>9.0 * 0.1\<close> is \<^verbatim>\<open>0.9\<close>.\<close>

definition lib_rounding :: pylib where
  "lib_rounding =
     lib0 \<lparr> fmul := (\<lambda>x y. if x = 0.1 \<and> y = 3 then 0.30000000000000004
                            else if x = 0.30000000000000004 \<and> y = 3 then 0.9000000000000001
                            else x * y) \<rparr>"

definition cfg_unit :: config where
  "cfg_unit = \<lparr> cfg_inst_id = Some ''BTC-USDT-SWAP'', cfg_reject_cooldown_sec = None,
                 cfg_cooldown_sec = None, cfg_max_positions = None,
                 cfg_order_timeout_sec = None, cfg_cancel_on_timeout = None,
                 cfg_min_avail_usdt = None, cfg_margin_buffer_ratio = Some 0.1,
                 cfg_td_mode = None, cfg_leverage = Some 1,
                 cfg_tp_pct = None, cfg_sl_pct = None \<rparr>"

definition spec3 :: instrument_spec where
  "spec3 = \<lparr> inst_id = ''BTC-USDT-SWAP'', ct_val = 3, lot_sz = 1, min_sz = 1, tick_sz = 0.1 \<rparr>"

definition cfg0 :: config where
  "cfg0 = \<lparr> cfg_inst_id = Some ''BTC-USDT-SWAP'', cfg_reject_cooldown_sec = Some 15,
             cfg_cooldown_sec = None, cfg_max_positions = Some 1,
             cfg_order_timeout_sec = Some 60, cfg_cancel_on_timeout = None,
             cfg_min_avail_usdt = None, cfg_margin_buffer_ratio = Some 0.5,
             cfg_td_mode = Some ''isolated'', cfg_leverage = Some 10,
             cfg_tp_pct = Some 0.02, cfg_sl_pct = Some 0.01 \<rparr>"

definition spec0 :: instrument_spec where
  "spec0 = \<lparr> inst_id = ''BTC-USDT-SWAP'', ct_val = 0.01, lot_sz = 1, min_sz = 1,
              tick_sz = 0.1 \<rparr>"

section \<open>The private account stream (\<^verbatim>\<open>exchange/okx_ws_private.py\<close>)\<close>

text \<open>
  The fields of \<^verbatim>\<open>OKXPrivateWS\<close>. \<open>have_ws\<close> says that \<^verbatim>\<open>self._ws\<close> is set, \<open>thread_alive\<close>
  that the reconnect thread runs, \<open>stop_flag\<close> is the event \<^verbatim>\<open>self._stop\<close>. Three further
  fields log what the object does to the outside: the number of connections opened
  (\<^verbatim>\<open>_connect_once\<close>), the payloads handed to \<^verbatim>\<open>ws.send\<close> and the calls of \<^verbatim>\<open>ws.close\<close>.
\<close>

datatype ws_payload = LoginPayload string string string string | SubscribePayload string

record private_ws =
  pw_api_key :: string
  pw_api_secret :: string
  pw_passphrase :: string
  max_login_failures :: int
  login_failures :: int
  disabled :: bool
  last_error :: string
  have_ws :: bool
  thread_alive :: bool
  stop_flag :: bool
  ws_connected :: bool
  ws_authed :: bool
  ws_subscribed :: bool
  connect_attempts :: nat
  ws_sent :: "ws_payload list"
  ws_closes :: nat


text \<open>\<^verbatim>\<open>try: if self._ws: self._ws.close() except Exception: pass\<close>\<close>

definition close_ws :: "private_ws \<Rightarrow> private_ws" where
  "close_ws st = (if have_ws st then st\<lparr>ws_closes := ws_closes st + 1\<rparr> else st)"

text \<open>
  \<^verbatim>\<open>
  def _disable(self, reason):
      self.disabled = True
      self.last_error = reason
      ... self._ws.close() ...
  \<close>
\<close>

definition disable :: "private_ws \<Rightarrow> string \<Rightarrow> private_ws" where
  "disable st why = close_ws (st\<lparr>disabled := True, last_error := why\<rparr>)"

text \<open>\<^verbatim>\<open>_login\<close>: \<open>now\<close> is the reading of \<^verbatim>\<open>time.time()\<close>, \<open>send_err\<close> the exception of
  \<^verbatim>\<open>ws.send\<close>, if it raises.\<close>

definition login :: "pylib \<Rightarrow> private_ws \<Rightarrow> real \<Rightarrow> string option \<Rightarrow> private_ws" where
  "login L st now send_err =
     (if \<not> have_ws st then st
      else if \<not> (pw_api_key st \<noteq> [] \<and> pw_api_secret st \<noteq> [] \<and> pw_passphrase st \<noteq> [])
      then disable st ''Missing API credentials (auth.api_key/api_secret/passphrase)''
      else
        let ts = str_int (py_int now);
            prehash = ts @ ''GET/users/self/verify'';
            sign = hmac_sha256_b64 L (pw_api_secret st) prehash;
            st1 = st\<lparr>ws_sent := ws_sent st @
                         [LoginPayload (pw_api_key st) (pw_passphrase st) ts sign]\<rparr>
        in case send_err of None \<Rightarrow> st1 | Some e \<Rightarrow> st1\<lparr>last_error := e\<rparr>)"

text \<open>\<^verbatim>\<open>_subscribe_after_login\<close>: a failing send is only logged.\<close>

definition subscribe_after_login :: "private_ws \<Rightarrow> private_ws" where
  "subscribe_after_login st =
     (if \<not> have_ws st \<or> ws_subscribed st then st
      else st\<lparr>ws_sent := ws_sent st @
                  [SubscribePayload ''account'', SubscribePayload ''positions'',
                   SubscribePayload ''orders''],
              ws_subscribed := True\<rparr>)"

text \<open>A pushed message after \<^verbatim>\<open>json.loads\<close>: the three fields the handler reads.\<close>

record ws_message =
  wm_event :: "string option"
  wm_code :: "string option"
  wm_msg :: "string option"

text \<open>
  \<^verbatim>\<open>
  def _handle_message(self, message):
      try: msg = json.loads(message)
      except Exception: return
      ...
      ev = str(msg.get("event") or "").lower()
      if ev == "login":
          code = str(msg.get("code") or "")
          if code == "0":
              self._authed = True
              self._login_failures = 0
              self._subscribe_after_login()
          else:
              self._login_failures += 1
              err_msg = str(msg.get("msg") or "")
              self.last_error = f"login failed code={code} msg={err_msg}"
              if self._login_failures >= self.max_login_failures:
                  self._disable(self.last_error)
              else:
                  ... self._ws.close() ...
      elif ev == "error":
          code = str(msg.get("code") or ""); err_msg = str(msg.get("msg") or "")
          self.last_error = f"event error code={code} msg={err_msg}"
          if code in ("60031", "60032", "50119", "50101") or "API key" in err_msg:
              self._login_failures += 1
          if self._login_failures >= self.max_login_failures:
              self._disable(self.last_error)
          else:
              ... self._ws.close() ...
  \<close>
  The argument is \<open>None\<close> when the text does not parse. The user callback \<^verbatim>\<open>on_event\<close> does
  not touch the stream object and is left out.
\<close>

definition handle_message :: "private_ws \<Rightarrow> ws_message option \<Rightarrow> private_ws" where
  "handle_message st message =
     (case message of
        None \<Rightarrow> st
      | Some msg \<Rightarrow>
          let ev = lower (or_str (wm_event msg) [])
          in if ev = ''login'' then
               (let code = or_str (wm_code msg) []
                in if code = ''0''
                   then subscribe_after_login (st\<lparr>ws_authed := True, login_failures := 0\<rparr>)
                   else
                     let err_msg = or_str (wm_msg msg) [];
                         st1 = st\<lparr>login_failures := login_failures st + 1,
                                  last_error := ''login failed code='' @ code @ '' msg='' @ err_msg\<rparr>
                     in if login_failures st1 \<ge> max_login_failures st1
                        then disable st1 (last_error st1)
                        else close_ws st1)
             else if ev = ''error'' then
               (let code = or_str (wm_code msg) [];
                    err_msg = or_str (wm_msg msg) [];
                    st1 = st\<lparr>last_error := ''event error code='' @ code @ '' msg='' @ err_msg\<rparr>;
                    st2 = (if code \<in> set [''60031'', ''60032'', ''50119'', ''50101'']
                              \<or> contains ''API key'' err_msg
                           then st1\<lparr>login_failures := login_failures st1 + 1\<rparr> else st1)
                in if login_failures st2 \<ge> max_login_failures st2
                   then disable st2 (last_error st2)
                   else close_ws st2)
             else st)"

text \<open>
  What happens on one connection, in the order the socket library reports it: the
  callbacks \<^verbatim>\<open>_on_open\<close>, \<^verbatim>\<open>_on_message\<close>, \<^verbatim>\<open>_on_error\<close>, \<^verbatim>\<open>_on_close\<close> of \<^verbatim>\<open>_connect_once\<close>,
  and a call of \<^verbatim>\<open>stop()\<close> from the control loop.
\<close>

datatype ws_event =
    OnOpen real "string option"
  | OnMessage "ws_message option"
  | OnError string
  | OnClose
  | StopCalled







definition is_login_ok :: "ws_event \<Rightarrow> bool" where
  "is_login_ok e =
     (case e of
        OnMessage (Some m) \<Rightarrow> lower (or_str (wm_event m) []) = ''login'' \<and> or_str (wm_code m) [] = ''0''
      | _ \<Rightarrow> False)"


section \<open>The durable key-value store (\<^verbatim>\<open>data/store.py\<close>)\<close>

text \<open>The table \<^verbatim>\<open>kv\<close>: a map from keys to text. \<^verbatim>\<open>get_kv\<close> is application, \<^verbatim>\<open>set_kv\<close> and
  \<^verbatim>\<open>del_kv\<close> are updates, and \<^verbatim>\<open>get_kv_float\<close> parses the value with \<^verbatim>\<open>float\<close>, giving
  \<open>None\<close> when the key is missing or the text is not a number.\<close>

type_synonym kv_store = "string \<rightharpoonup> string"

definition set_kv :: "kv_store \<Rightarrow> string \<Rightarrow> string \<Rightarrow> kv_store" where
  "set_kv kv k v = kv(k \<mapsto> v)"

definition del_kv :: "kv_store \<Rightarrow> string \<Rightarrow> kv_store" where
  "del_kv kv k = kv(k := None)"

definition get_kv_float :: "pylib \<Rightarrow> kv_store \<Rightarrow> string \<Rightarrow> real option" where
  "get_kv_float L kv k = (case kv k of None \<Rightarrow> None | Some v \<Rightarrow> to_float L v)"

section \<open>The portfolio snapshot (\<^verbatim>\<open>execution/portfolio.py\<close>)\<close>

record portfolio =
  equity :: real
  avail_usdt :: real
  pos_long :: real
  pos_short :: real
  has_position :: bool
  pos_side :: "string option"
  pos_sz :: real

text \<open>The REST calls a refresh makes, in order.\<close>

datatype rest_call = GetAccountEquity | GetBalanceUsdt | GetPositions

text \<open>
  \<^verbatim>\<open>
  def _ws_fresh(self, max_age_sec=5.0):
      ts = self.store.get_kv_float("ws_private:last_uptime")
      if ts is None: return False
      return (time.time() - float(ts)) <= float(max_age_sec)
  \<close>
\<close>

definition ws_fresh :: "pylib \<Rightarrow> kv_store \<Rightarrow> real \<Rightarrow> bool" where
  "ws_fresh L kv now =
     (case get_kv_float L kv ''ws_private:last_uptime'' of
        None \<Rightarrow> False
      | Some ts \<Rightarrow> now - ts \<le> 5)"

text \<open>
  \<^verbatim>\<open>
  def _refresh_account(self):
      try:
          if self._ws_fresh():
              ws_eq = self.store.get_kv_float("ws:equity_usd")
              ws_av = self.store.get_kv_float("ws:avail_usdt")
              self.equity = float(ws_eq) if ws_eq is not None else float(self.ex.get_account_equity_usd() or 0.0)
              self.avail_usdt = float(ws_av) if ws_av is not None else float(self.ex.get_balance_usdt() or 0.0)
          else:
              self.equity = float(self.ex.get_account_equity_usd() or 0.0)
              self.avail_usdt = float(self.ex.get_balance_usdt() or 0.0)
      except Exception as e:
          ... (both fields keep the value they have)
  \<close>
  \<open>rest_equity\<close> and \<open>rest_avail\<close> are the outcomes the two REST calls have if they are made.
  The result is the portfolio and the REST calls made.
\<close>

definition refresh_account ::
  "pylib \<Rightarrow> kv_store \<Rightarrow> real \<Rightarrow> err + real \<Rightarrow> err + real \<Rightarrow> portfolio \<Rightarrow>
   portfolio \<times> rest_call list" where
  "refresh_account L kv now rest_equity rest_avail pf =
     (if ws_fresh L kv now then
        (let ws_eq = get_kv_float L kv ''ws:equity_usd'';
             ws_av = get_kv_float L kv ''ws:avail_usdt''
         in case ws_eq of
              Some a \<Rightarrow>
                (case ws_av of
                   Some b \<Rightarrow> (pf\<lparr>equity := a, avail_usdt := b\<rparr>, [])
                 | None \<Rightarrow>
                     (case rest_avail of
                        Inr v \<Rightarrow> (pf\<lparr>equity := a, avail_usdt := v\<rparr>, [GetBalanceUsdt])
                      | Inl e \<Rightarrow> (pf\<lparr>equity := a\<rparr>, [GetBalanceUsdt])))
            | None \<Rightarrow>
                (case rest_equity of
                   Inl e \<Rightarrow> (pf, [GetAccountEquity])
                 | Inr u \<Rightarrow>
                     (case ws_av of
                        Some b \<Rightarrow> (pf\<lparr>equity := u, avail_usdt := b\<rparr>, [GetAccountEquity])
                      | None \<Rightarrow>
                          (case rest_avail of
                             Inr v \<Rightarrow> (pf\<lparr>equity := u, avail_usdt := v\<rparr>,
                                        [GetAccountEquity, GetBalanceUsdt])
                           | Inl e \<Rightarrow> (pf\<lparr>equity := u\<rparr>, [GetAccountEquity, GetBalanceUsdt])))))
      else
        (case rest_equity of
           Inl e \<Rightarrow> (pf, [GetAccountEquity])
         | Inr u \<Rightarrow>
             (case rest_avail of
                Inr v \<Rightarrow> (pf\<lparr>equity := u, avail_usdt := v\<rparr>, [GetAccountEquity, GetBalanceUsdt])
              | Inl e \<Rightarrow> (pf\<lparr>equity := u\<rparr>, [GetAccountEquity, GetBalanceUsdt]))))"

text \<open>\<^verbatim>\<open>_set_pos\<close>, with the backward compatible fields.\<close>

definition set_pos :: "portfolio \<Rightarrow> real \<Rightarrow> real \<Rightarrow> portfolio" where
  "set_pos pf long_sz short_sz =
     (let pf1 = pf\<lparr>pos_long := long_sz, pos_short := short_sz,
                   has_position := (long_sz > 0 \<or> short_sz > 0)\<rparr>
      in if long_sz > 0 \<and> short_sz \<le> 0 then pf1\<lparr>pos_side := Some ''long'', pos_sz := long_sz\<rparr>
         else if short_sz > 0 \<and> long_sz \<le> 0 then pf1\<lparr>pos_side := Some ''short'', pos_sz := short_sz\<rparr>
         else if long_sz = 0 \<and> short_sz = 0 then pf1\<lparr>pos_side := None, pos_sz := 0\<rparr>
         else if long_sz \<ge> short_sz then pf1\<lparr>pos_side := Some ''long'', pos_sz := long_sz\<rparr>
         else pf1\<lparr>pos_side := Some ''short'', pos_sz := short_sz\<rparr>)"

text \<open>The body of the loop over the REST position rows:
  \<^verbatim>\<open>
  try: sz = float(p.get("pos", "0") or "0")
  except Exception: sz = 0.0
  side = str(p.get("posSide") or "").lower().strip()
  if side == "long": long_sz += sz
  elif side == "short": short_sz += sz
  \<close>
\<close>

definition pos_acc :: "pylib \<Rightarrow> real \<times> real \<Rightarrow> row \<Rightarrow> real \<times> real" where
  "pos_acc L acc p =
     (let sz = (case to_float L (or_str (p ''pos'') ''0'') of None \<Rightarrow> 0 | Some v \<Rightarrow> v);
          side = strip (lower (or_str (p ''posSide'') []))
      in if side = ''long'' then (fst acc + sz, snd acc)
         else if side = ''short'' then (fst acc, snd acc + sz)
         else acc)"

text \<open>
  \<^verbatim>\<open>_refresh_pos\<close>: the stream snapshot when it is fresh and holds a position entry (the
  keys \<^verbatim>\<open>ws:pos_long\<close>, \<^verbatim>\<open>ws:pos_short\<close>, or the older single-sided keys), REST otherwise;
  a failing REST call sets both sizes to zero.
\<close>

definition refresh_pos ::
  "pylib \<Rightarrow> config \<Rightarrow> kv_store \<Rightarrow> real \<Rightarrow> err + envelope \<Rightarrow> portfolio \<Rightarrow>
   portfolio \<times> rest_call list" where
  "refresh_pos L cfg kv now rest_positions pf =
     (let inst = strip (or_str (cfg_inst_id cfg) []);
          pl = get_kv_float L kv ''ws:pos_long'';
          ps = get_kv_float L kv ''ws:pos_short'';
          has_pos = kv ''ws:has_pos'';
          side = kv ''ws:pos_side'';
          sz = (case get_kv_float L kv ''ws:pos_sz'' of None \<Rightarrow> 0 | Some v \<Rightarrow> v)
      in if inst = [] then (set_pos pf 0 0, [])
         else if ws_fresh L kv now \<and> (pl \<noteq> None \<or> ps \<noteq> None)
         then (set_pos pf (case pl of None \<Rightarrow> 0 | Some v \<Rightarrow> v)
                          (case ps of None \<Rightarrow> 0 | Some v \<Rightarrow> v), [])
         else if ws_fresh L kv now \<and> has_pos = Some ''1''
                 \<and> (side = Some ''long'' \<or> side = Some ''short'')
         then (set_pos pf (if side = Some ''long'' then sz else 0)
                          (if side = Some ''short'' then sz else 0), [])
         else (case rest_positions of
                 Inl e \<Rightarrow> (set_pos pf 0 0, [GetPositions])
               | Inr resp \<Rightarrow>
                   (let totals = foldl (pos_acc L) (0, 0) (rows_of resp)
                    in (set_pos pf (fst totals) (snd totals), [GetPositions]))))"

text \<open>\<^verbatim>\<open>refresh\<close>: the account step, then the position step. Each step reads the clock on
  its own (\<open>now1\<close>, \<open>now2\<close>).\<close>

definition refresh ::
  "pylib \<Rightarrow> config \<Rightarrow> kv_store \<Rightarrow> real \<Rightarrow> real \<Rightarrow> err + real \<Rightarrow> err + real \<Rightarrow>
   err + envelope \<Rightarrow> portfolio \<Rightarrow> portfolio \<times> rest_call list" where
  "refresh L cfg kv now1 now2 rest_equity rest_avail rest_positions pf =
     (case refresh_account L kv now1 rest_equity rest_avail pf of
        (pf1, calls1) \<Rightarrow>
          (case refresh_pos L cfg kv now2 rest_positions pf1 of
             (pf2, calls2) \<Rightarrow> (pf2, calls1 @ calls2)))"

definition portfolio0 :: portfolio where
  "portfolio0 = \<lparr> equity = 0, avail_usdt = 0, pos_long = 0, pos_short = 0,
                  has_position = False, pos_side = None, pos_sz = 0 \<rparr>"

section \<open>The order lifecycle manager (\<^verbatim>\<open>execution/order_manager.py\<close>)\<close>

subsection \<open>Keys of the ledger\<close>

definition pending_key :: "string \<Rightarrow> string" where
  "pending_key idem = ''pending:'' @ idem @ '':clOrdId''"

definition pending_ts_key :: "string \<Rightarrow> string" where
  "pending_ts_key idem = ''pending:'' @ idem @ '':ts''"

definition done_key :: "string \<Rightarrow> string" where
  "done_key idem = ''done:'' @ idem"

definition reject_ts_key :: string where
  "reject_ts_key = ''last_reject_ts''"

definition tp_sl_key :: "string \<Rightarrow> string" where
  "tp_sl_key idem = ''tp_sl_set:'' @ idem"

subsection \<open>State, calls and inputs\<close>

text \<open>
  The manager's state is the ledger, the log of the calls it has made to the exchange
  object, and the order records it has saved. \<open>PlaceMarket\<close> is a call of
  \<^verbatim>\<open>place_market_with_tp_sl\<close> and \<open>PlaceTpSlAlgo\<close> one of \<^verbatim>\<open>place_tp_sl_algo\<close>; their first
  argument is the idempotency key the call is made for (it is not sent), the others are
  arguments of the call.
\<close>

datatype ex_call =
    PlaceMarket string string string string string real real string
  | LookupOrder string string
  | CancelOrder string string
  | PlaceTpSlAlgo string string string string real real real string string

record saved_order =
  so_inst_id :: string
  so_side :: string
  so_pos_side :: string
  so_sz :: string
  so_tp_trigger :: real
  so_sl_trigger :: real
  so_note :: string
  so_cl_ord_id :: string

record om_state =
  om_kv :: kv_store
  om_calls :: "ex_call list"
  om_orders :: "saved_order list"

record signal =
  action :: string
  idempotency_key :: string
  sig_reason :: string

text \<open>
  What one call of \<^verbatim>\<open>on_signal\<close> reads from outside: the clock at each \<^verbatim>\<open>time.time()\<close>, the
  portfolio's fields, and the outcomes of the calls to the exchange object and of
  \<^verbatim>\<open>save_order\<close>.
\<close>

record signal_env =
  se_t_reject_check :: real
  se_t_cooldown_check :: real
  se_t_gate_reject :: real
  se_t_cl_ord_id :: real
  se_t_pending :: real
  se_t_place_failed :: real
  se_t_trade :: real
  se_pos_long :: real
  se_pos_short :: real
  se_avail_usdt :: real
  se_size :: "err + real"
  se_spec :: "(err + instrument_spec) option"
  se_place :: "err + envelope"
  se_save_fails :: bool

text \<open>What one call of \<^verbatim>\<open>housekeep\<close> reads from outside.\<close>

record hk_env =
  hk_now :: real
  hk_lookup :: "err + envelope"
  hk_cancel :: "err + envelope"
  hk_algo :: "err + envelope"

subsection \<open>Helpers\<close>

text \<open>
  \<^verbatim>\<open>
  def _bar_close(self, bar):
      for k in ("close", "c", "last", "px"):
          if k in bar and bar[k] is not None:
              try: return float(bar[k])
              except Exception: continue
      return 0.0
  \<close>
  A bar is a map from field names to numbers.
\<close>

definition bar_close :: "(string \<rightharpoonup> real) \<Rightarrow> real" where
  "bar_close bar =
     (case bar ''close'' of Some v \<Rightarrow> v | None \<Rightarrow>
      (case bar ''c'' of Some v \<Rightarrow> v | None \<Rightarrow>
       (case bar ''last'' of Some v \<Rightarrow> v | None \<Rightarrow>
        (case bar ''px'' of Some v \<Rightarrow> v | None \<Rightarrow> 0))))"

text \<open>\<^verbatim>\<open>OKXRest.calc_tp_sl\<close> with the percentages of the configuration.\<close>

definition calc_tp_sl :: "config \<Rightarrow> real \<Rightarrow> string \<Rightarrow> real \<times> real" where
  "calc_tp_sl cfg entry_px side0 =
     (if entry_px \<le> 0 then (0, 0)
      else
        let tp_pct = or_num (cfg_tp_pct cfg) 0;
            sl_pct = or_num (cfg_sl_pct cfg) 0;
            side = lower side0
        in if side = ''buy''
           then (entry_px * (1 + tp_pct), entry_px * (1 - sl_pct))
           else (entry_px * (1 - tp_pct), entry_px * (1 + sl_pct)))"

text \<open>\<^verbatim>\<open>_cleanup_pending\<close>: three deletions.\<close>

definition cleanup_pending :: "kv_store \<Rightarrow> string \<Rightarrow> kv_store" where
  "cleanup_pending kv idem =
     del_kv (del_kv (del_kv kv ''pending_current_idem'') (pending_key idem)) (pending_ts_key idem)"

text \<open>\<^verbatim>\<open>float(self.store.get_kv_float(k) or 0.0)\<close>\<close>

definition kv_float0 :: "pylib \<Rightarrow> kv_store \<Rightarrow> string \<Rightarrow> real" where
  "kv_float0 L kv k = (case get_kv_float L kv k of None \<Rightarrow> 0 | Some v \<Rightarrow> v)"

text \<open>\<^verbatim>\<open>float(info.get(k) or 0.0)\<close> on a row: \<open>None\<close> when \<^verbatim>\<open>float\<close> raises.\<close>

definition row_float :: "pylib \<Rightarrow> string option \<Rightarrow> real option" where
  "row_float L v = (if truthy v then to_float L (the v) else Some 0)"

subsection \<open>Signal entry (\<^verbatim>\<open>on_signal\<close>)\<close>

text \<open>
  The tail of \<^verbatim>\<open>on_signal\<close>, from the computation of the targets on: the pending marker is
  written before the order is placed; a failing placement cleans the marker up, records
  the reject time and marks the key done.
\<close>

definition submit_order ::
  "pylib \<Rightarrow> config \<Rightarrow> signal_env \<Rightarrow> signal \<Rightarrow> string \<Rightarrow> string \<Rightarrow> string \<Rightarrow> string \<Rightarrow>
   real \<Rightarrow> real \<Rightarrow> om_state \<Rightarrow> om_state" where
  "submit_order L cfg env sg inst td_mode side p_side entry_px sz st =
     (let idem = idempotency_key sg;
          calc_side = (if p_side = ''long'' then ''buy'' else ''sell'');
          tpsl = calc_tp_sl cfg entry_px calc_side;
          cl_ord_id = make_cl_ord_id L idem (se_t_cl_ord_id env);
          kv1 = set_kv (om_kv st) ''pending_current_idem'' idem;
          kv2 = set_kv kv1 (pending_key idem) cl_ord_id;
          kv3 = set_kv kv2 (pending_ts_key idem) (str_float L (se_t_pending env));
          calls1 = om_calls st @ [PlaceMarket idem inst td_mode side p_side sz entry_px cl_ord_id]
      in case se_place env of
           Inl e \<Rightarrow>
             st\<lparr>om_kv := set_kv (set_kv (cleanup_pending kv3 idem) reject_ts_key
                                    (str_float L (se_t_place_failed env)))
                             (done_key idem) ''1'',
                om_calls := calls1\<rparr>
         | Inr resp \<Rightarrow>
             st\<lparr>om_kv := set_kv kv3 ''last_trade_ts'' (str_float L (se_t_trade env)),
                om_calls := calls1,
                om_orders := (if se_save_fails env then om_orders st
                              else om_orders st @
                                   [\<lparr>so_inst_id = inst, so_side = side, so_pos_side = p_side,
                                     so_sz = str_float L sz, so_tp_trigger = fst tpsl,
                                     so_sl_trigger = snd tpsl, so_note = sig_reason sg,
                                     so_cl_ord_id = cl_ord_id\<rparr>])\<rparr>)"

text \<open>
  The checks of \<^verbatim>\<open>on_signal\<close>, one by one in the order of the source: the action, the key,
  done, pending, the reject cooldown, the trade cooldown, the instrument, the entry price,
  the direction, the position conflict, the size and the margin gate. The result says what
  \<^verbatim>\<open>on_signal\<close> goes on to do: return at once, record a rejection by the margin gate, or
  submit an order with the given instrument, margin mode, side, position side, entry price
  and size.
\<close>

datatype admission_result =
    Ignore
  | GateRejected
  | Admitted string string string string real real

definition admission ::
  "pylib \<Rightarrow> config \<Rightarrow> signal_env \<Rightarrow> signal \<Rightarrow> (string \<rightharpoonup> real) \<Rightarrow> kv_store \<Rightarrow>
   admission_result" where
  "admission L cfg env sg bar kv =
     (let act = action sg; idem = idempotency_key sg
      in if \<not> prefix ''OPEN'' act then Ignore
         else if idem = [] then Ignore
         else if kv (done_key idem) = Some ''1'' then Ignore
         else if truthy (kv (pending_key idem)) then Ignore
         else if or_num (cfg_reject_cooldown_sec cfg) 15 > 0
                 \<and> se_t_reject_check env - kv_float0 L kv reject_ts_key
                       < or_num (cfg_reject_cooldown_sec cfg) 15 then Ignore
         else if or_num (cfg_cooldown_sec cfg) 0 > 0
                 \<and> se_t_cooldown_check env - kv_float0 L kv ''last_trade_ts''
                       < or_num (cfg_cooldown_sec cfg) 0 then Ignore
         else
           let inst = strip (or_str (cfg_inst_id cfg) []);
               td_mode = strip (or_str (cfg_td_mode cfg) ''isolated'');
               entry_px = bar_close bar
           in if inst = [] then Ignore
              else if entry_px \<le> 0 then Ignore
              else if act \<noteq> ''OPEN_LONG'' \<and> act \<noteq> ''OPEN_SHORT'' then Ignore
              else
                let p_side = (if act = ''OPEN_LONG'' then ''long'' else ''short'');
                    side = (if act = ''OPEN_LONG'' then ''buy'' else ''sell'');
                    max_pos = or_int (cfg_max_positions cfg) 1
                in if max_pos \<le> 1 \<and> act = ''OPEN_LONG'' \<and> se_pos_short env > 0 then Ignore
                   else if max_pos \<le> 1 \<and> act = ''OPEN_SHORT'' \<and> se_pos_long env > 0 then Ignore
                   else (case se_size env of
                           Inl e \<Rightarrow> Ignore
                         | Inr sz \<Rightarrow>
                             if sz \<le> 0 then Ignore
                             else if \<not> margin_gate L cfg (se_avail_usdt env) (se_spec env) entry_px sz
                             then GateRejected
                             else Admitted inst td_mode side p_side entry_px sz))"

text \<open>
  \<^verbatim>\<open>on_signal\<close>: a rejection by the margin gate records the reject time and marks the key
  done; an admitted signal is submitted.
\<close>

definition on_signal ::
  "pylib \<Rightarrow> config \<Rightarrow> signal_env \<Rightarrow> signal \<Rightarrow> (string \<rightharpoonup> real) \<Rightarrow> om_state \<Rightarrow> om_state" where
  "on_signal L cfg env sg bar st =
     (case admission L cfg env sg bar (om_kv st) of
        Ignore \<Rightarrow> st
      | GateRejected \<Rightarrow>
          st\<lparr>om_kv := set_kv (set_kv (om_kv st) reject_ts_key (str_float L (se_t_gate_reject env)))
                          (done_key (idempotency_key sg)) ''1''\<rparr>
      | Admitted inst td_mode side p_side entry_px sz \<Rightarrow>
          submit_order L cfg env sg inst td_mode side p_side entry_px sz st)"

subsection \<open>Take-profit and stop-loss after a fill (\<^verbatim>\<open>_after_fill_set_tp_sl\<close>)\<close>

text \<open>
  \<^verbatim>\<open>
  if self.store.get_kv(f"tp_sl_set:{idem}") == "1":
      return
  try:
      avg_px = float(info.get("avgPx") or 0.0)
      if avg_px <= 0:
          avg_px = float(info.get("lastPx") or info.get("px") or 0.0)
      acc_fill = float(info.get("accFillSz") or 0.0)
      sz = float(force_sz if force_sz is not None else acc_fill)
      if sz <= 0 or avg_px <= 0:
          return
      pos_side = (info.get("posSide") or "").lower().strip()
      if pos_side not in ("long", "short"):
          open_side = (info.get("side") or "").lower()
          pos_side = "long" if open_side == "buy" else "short"
      calc_side = "buy" if pos_side == "long" else "sell"
      tp_px, sl_px = self.ex.calc_tp_sl(avg_px, side=calc_side)
      close_side = "sell" if pos_side == "long" else "buy"
      algo_cl = f"TPSL_{cl_ord_id}"
      self.ex.place_tp_sl_algo(...)
      self.store.set_kv(f"tp_sl_set:{idem}", "1")
  except Exception as e:
      log.error(...)
  \<close>
  \<open>algo_res\<close> is the outcome of \<^verbatim>\<open>place_tp_sl_algo\<close> if it is called. A \<^verbatim>\<open>float\<close> that raises
  leaves the state as it is. \<open>fill_price\<close> is the computation of \<^verbatim>\<open>avg_px\<close>, and \<open>tp_sl_call\<close>
  the call that is made, from \<^verbatim>\<open>pos_side\<close> on.
\<close>

definition fill_price :: "pylib \<Rightarrow> row \<Rightarrow> real option" where
  "fill_price L info =
     (case row_float L (info ''avgPx'') of
        None \<Rightarrow> None
      | Some avg_px \<Rightarrow>
          if avg_px \<le> 0
          then row_float L (if truthy (info ''lastPx'') then info ''lastPx'' else info ''px'')
          else Some avg_px)"

definition tp_sl_call ::
  "config \<Rightarrow> string \<Rightarrow> string \<Rightarrow> string \<Rightarrow> string \<Rightarrow> row \<Rightarrow> real \<Rightarrow> real \<Rightarrow> ex_call" where
  "tp_sl_call cfg idem inst td_mode cl_ord_id info avg_px sz =
     (let ps0 = strip (lower (or_str (info ''posSide'') []));
          p_side = (if ps0 = ''long'' \<or> ps0 = ''short'' then ps0
                    else if lower (or_str (info ''side'') []) = ''buy'' then ''long''
                    else ''short'');
          calc_side = (if p_side = ''long'' then ''buy'' else ''sell'');
          tpsl = calc_tp_sl cfg avg_px calc_side;
          close_side = (if p_side = ''long'' then ''sell'' else ''buy'');
          algo_cl = ''TPSL_'' @ cl_ord_id
      in PlaceTpSlAlgo idem inst td_mode close_side sz (fst tpsl) (snd tpsl) p_side algo_cl)"

definition after_fill_set_tp_sl ::
  "pylib \<Rightarrow> config \<Rightarrow> err + envelope \<Rightarrow> string \<Rightarrow> string \<Rightarrow> string \<Rightarrow> string \<Rightarrow> row \<Rightarrow>
   real option \<Rightarrow> om_state \<Rightarrow> om_state" where
  "after_fill_set_tp_sl L cfg algo_res idem inst td_mode cl_ord_id info force_sz st =
     (if om_kv st (tp_sl_key idem) = Some ''1'' then st
      else (case fill_price L info of
              None \<Rightarrow> st
            | Some avg_px \<Rightarrow>
                (case row_float L (info ''accFillSz'') of
                   None \<Rightarrow> st
                 | Some acc_fill \<Rightarrow>
                     let sz = (case force_sz of Some f \<Rightarrow> f | None \<Rightarrow> acc_fill)
                     in if sz \<le> 0 \<or> avg_px \<le> 0 then st
                        else
                          let st1 = st\<lparr>om_calls := om_calls st @
                                         [tp_sl_call cfg idem inst td_mode cl_ord_id info avg_px sz]\<rparr>
                          in (case algo_res of
                                Inl e \<Rightarrow> st1
                              | Inr resp \<Rightarrow>
                                  st1\<lparr>om_kv := set_kv (om_kv st1) (tp_sl_key idem) ''1''\<rparr>))))"

subsection \<open>Housekeeping (\<^verbatim>\<open>housekeep\<close>)\<close>

text \<open>Marking a key done and cleaning its pending marker up.\<close>

definition mark_done :: "string \<Rightarrow> om_state \<Rightarrow> om_state" where
  "mark_done idem st = st\<lparr>om_kv := cleanup_pending (set_kv (om_kv st) (done_key idem) ''1'') idem\<rparr>"

text \<open>
  The part of \<^verbatim>\<open>housekeep\<close> after the timeout has passed: the exhaustive lookup, and the
  branch on the state it reports. A failing lookup, and an \<^verbatim>\<open>accFillSz\<close> that is not a
  number, end in the \<^verbatim>\<open>except\<close> branch: the key is marked done.
\<close>

text \<open>\<^verbatim>\<open>info = (od.get("data") or [{}])[0]\<close>\<close>

definition first_row :: "envelope \<Rightarrow> row" where
  "first_row od = (case rows_of od of [] \<Rightarrow> Map.empty | r # rs \<Rightarrow> r)"

definition reconcile ::
  "pylib \<Rightarrow> config \<Rightarrow> hk_env \<Rightarrow> string \<Rightarrow> string \<Rightarrow> om_state \<Rightarrow> om_state" where
  "reconcile L cfg env idem cl st =
     (let inst = strip (or_str (cfg_inst_id cfg) []);
          td_mode = strip (or_str (cfg_td_mode cfg) ''isolated'');
          st1 = st\<lparr>om_calls := om_calls st @ [LookupOrder inst cl]\<rparr>
      in (case hk_lookup env of
           Inl e \<Rightarrow> mark_done idem st1
         | Inr od \<Rightarrow>
             let info = first_row od;
                 state = lower (or_str (info ''state'') [])
             in (case row_float L (info ''accFillSz'') of
                  None \<Rightarrow> mark_done idem st1
                | Some acc_fill \<Rightarrow>
                    if state = ''filled'' then
                      mark_done idem
                        (after_fill_set_tp_sl L cfg (hk_algo env) idem inst td_mode cl info None st1)
                    else if state = ''canceled'' then mark_done idem st1
                    else if state = ''partially_filled'' then
                      mark_done idem
                        (after_fill_set_tp_sl L cfg (hk_algo env) idem inst td_mode cl info
                           (Some acc_fill)
                           (st1\<lparr>om_calls := om_calls st1 @ [CancelOrder inst cl]\<rparr>))
                    else if (case cfg_cancel_on_timeout cfg of None \<Rightarrow> True | Some b \<Rightarrow> b)
                    then st1\<lparr>om_calls := om_calls st1 @ [CancelOrder inst cl]\<rparr>
                    else st1)))"

text \<open>
  \<^verbatim>\<open>
  def housekeep(self):
      idem = self.store.get_kv("pending_current_idem")
      if not idem: return
      if self.store.get_kv(self._done_key(idem)) == "1":
          self._cleanup_pending(idem); return
      cl = self.store.get_kv(self._pending_key(idem))
      if not cl:
          self._cleanup_pending(idem); return
      ts = float(self.store.get_kv_float(self._pending_ts_key(idem)) or 0.0)
      if ts <= 0: return
      timeout_sec = float(... .get("order_timeout_sec", 60) or 60)
      if (time.time() - ts) < timeout_sec: return
      ...
  \<close>
\<close>

definition housekeep :: "pylib \<Rightarrow> config \<Rightarrow> hk_env \<Rightarrow> om_state \<Rightarrow> om_state" where
  "housekeep L cfg env st =
     (let kv = om_kv st
      in if \<not> truthy (kv ''pending_current_idem'') then st
         else
           let idem = the (kv ''pending_current_idem'')
           in if kv (done_key idem) = Some ''1'' then st\<lparr>om_kv := cleanup_pending kv idem\<rparr>
              else if \<not> truthy (kv (pending_key idem)) then st\<lparr>om_kv := cleanup_pending kv idem\<rparr>
              else
                let cl = the (kv (pending_key idem));
                    ts = kv_float0 L kv (pending_ts_key idem)
                in if ts \<le> 0 then st
                   else if hk_now env - ts < or_num (cfg_order_timeout_sec cfg) 60 then st
                   else reconcile L cfg env idem cl st)"

subsection \<open>Runs of the control loop\<close>

text \<open>The control loop calls \<^verbatim>\<open>housekeep\<close> and \<^verbatim>\<open>on_signal\<close> one after the other, never at the
  same time; a run is a list of such calls with their inputs.\<close>

datatype om_event =
    Signal signal_env signal "string \<rightharpoonup> real"
  | Housekeep hk_env

fun om_step :: "pylib \<Rightarrow> config \<Rightarrow> om_state \<Rightarrow> om_event \<Rightarrow> om_state" where
  "om_step L cfg st (Signal env sg bar) = on_signal L cfg env sg bar st"
| "om_step L cfg st (Housekeep env) = housekeep L cfg env st"

definition om_run :: "pylib \<Rightarrow> config \<Rightarrow> om_state \<Rightarrow> om_event list \<Rightarrow> om_state" where
  "om_run L cfg st evs = foldl (om_step L cfg) st evs"

text \<open>Counting the calls made for one idempotency key.\<close>

fun is_place_for :: "string \<Rightarrow> ex_call \<Rightarrow> bool" where
  "is_place_for k (PlaceMarket idem inst td side ps sz px cl) = (idem = k)"
| "is_place_for k c = False"

fun is_algo_for :: "string \<Rightarrow> ex_call \<Rightarrow> bool" where
  "is_algo_for k (PlaceTpSlAlgo idem inst td close_side sz tp sl ps cl) = (idem = k)"
| "is_algo_for k c = False"

definition place_count :: "string \<Rightarrow> ex_call list \<Rightarrow> nat" where
  "place_count k cs = length (filter (is_place_for k) cs)"

definition algo_count :: "string \<Rightarrow> ex_call list \<Rightarrow> nat" where
  "algo_count k cs = length (filter (is_algo_for k) cs)"

text \<open>The two markers of the ledger a signal is checked against, as \<^verbatim>\<open>on_signal\<close> tests them
  (\<^verbatim>\<open>== "1"\<close>, and truthiness of the stored client order id), and the condition under which
  \<^verbatim>\<open>_after_fill_set_tp_sl\<close> gets as far as calling \<^verbatim>\<open>place_tp_sl_algo\<close>.\<close>

definition is_done :: "string \<Rightarrow> om_state \<Rightarrow> bool" where
  "is_done k st = (om_kv st (done_key k) = Some ''1'')"

definition has_pending :: "string \<Rightarrow> om_state \<Rightarrow> bool" where
  "has_pending k st = truthy (om_kv st (pending_key k))"

definition tp_sl_due :: "pylib \<Rightarrow> kv_store \<Rightarrow> string \<Rightarrow> row \<Rightarrow> real option \<Rightarrow> bool" where
  "tp_sl_due L kv idem info force_sz =
     (kv (tp_sl_key idem) \<noteq> Some ''1'' \<and>
      (case fill_price L info of
         None \<Rightarrow> False
       | Some avg_px \<Rightarrow>
           (case row_float L (info ''accFillSz'') of
              None \<Rightarrow> False
            | Some acc_fill \<Rightarrow>
                \<not> ((case force_sz of Some f \<Rightarrow> f | None \<Rightarrow> acc_fill) \<le> 0 \<or> avg_px \<le> 0))))"



definition pending_state0 :: om_state where
  "pending_state0 =
     \<lparr> om_kv = [''pending_current_idem'' \<mapsto> ''K'', pending_key ''K'' \<mapsto> ''Q1'',
                pending_ts_key ''K'' \<mapsto> ''1000''],
       om_calls = [], om_orders = [] \<rparr>"

definition filled_env0 :: hk_env where
  "filled_env0 =
     \<lparr> hk_now = 1061,
       hk_lookup = Inr \<lparr>e_code = Some ''0'', e_msg = None,
                        e_data = Some [[''state'' \<mapsto> ''filled'', ''avgPx'' \<mapsto> ''30000'',
                                        ''accFillSz'' \<mapsto> ''1'', ''posSide'' \<mapsto> ''long'']]\<rparr>,
       hk_cancel = Inr \<lparr>e_code = Some ''0'', e_msg = None, e_data = Some []\<rparr>,
       hk_algo = Inr \<lparr>e_code = Some ''0'', e_msg = None, e_data = Some []\<rparr> \<rparr>"




definition partial_env0 :: hk_env where
  "partial_env0 =
     \<lparr> hk_now = 1061,
       hk_lookup = Inr \<lparr>e_code = Some ''0'', e_msg = None,
                        e_data = Some [[''state'' \<mapsto> ''partially_filled'', ''avgPx'' \<mapsto> ''30000'',
                                        ''accFillSz'' \<mapsto> ''0.5'', ''posSide'' \<mapsto> ''long'']]\<rparr>,
       hk_cancel = Inr \<lparr>e_code = Some ''0'', e_msg = None, e_data = Some []\<rparr>,
       hk_algo = Inr \<lparr>e_code = Some ''0'', e_msg = None, e_data = Some []\<rparr> \<rparr>"

chapter \<open>Properties\<close>

section \<open>Client order ids\<close>

lemma length_hexdigest: "length (hexdigest w) = 40"
  by (simp add: hexdigest_def)

lemma hex_digit_in: "n < 16 \<Longrightarrow> hex_digit n \<in> set ''0123456789abcdef''"
proof -
  assume "n < 16"
  then have "n < length ''0123456789abcdef''" by simp
  then show ?thesis unfolding hex_digit_def by (rule nth_mem)
qed

lemma unat_and_15: "unat (and (x :: 160 word) 15) < 16"
proof -
  have "and x 15 \<le> 15" by (rule word_and_le1)
  then have "unat (and x 15) \<le> unat (15 :: 160 word)" by (simp add: word_le_nat_alt)
  then show ?thesis by simp
qed

lemma set_hexdigest: "set (hexdigest w) \<subseteq> set ''0123456789abcdef''"
  unfolding hexdigest_def using hex_digit_in [OF unat_and_15] by auto

lemma dec_digit_in: "n < 10 \<Longrightarrow> dec_digit n \<in> set ''0123456789''"
proof -
  assume "n < 10"
  then have "n < length ''0123456789''" by simp
  then show ?thesis unfolding dec_digit_def by (rule nth_mem)
qed

lemma set_dec_digits: "set (dec_digits n) \<subseteq> set ''0123456789''"
proof (induction n rule: dec_digits.induct)
  case (1 n)
  show ?case
  proof (cases "n < 10")
    case True
    then show ?thesis using dec_digit_in [of n] by (subst dec_digits.simps) simp
  next
    case False
    have "n mod 10 < 10" by simp
    then have "dec_digit (n mod 10) \<in> set ''0123456789''" by (rule dec_digit_in)
    with False 1 show ?thesis by (subst dec_digits.simps) simp
  qed
qed

lemma length_dec_digits: "n < 10 ^ k \<Longrightarrow> 0 < k \<Longrightarrow> length (dec_digits n) \<le> k"
proof (induction n arbitrary: k rule: dec_digits.induct)
  case (1 n)
  show ?case
  proof (cases "n < 10")
    case True
    then show ?thesis using 1(3) by (subst dec_digits.simps) simp
  next
    case False
    with 1(2) have k2: "1 < k" by (cases k; cases "k - 1") auto
    then obtain j where k: "k = Suc j" and j: "0 < j" by (cases k) auto
    from 1(2) k have "n div 10 < 10 ^ j" by (simp add: less_mult_imp_div_less mult.commute)
    with 1(1) [OF False] j have "length (dec_digits (n div 10)) \<le> j" by simp
    with False k show ?thesis by (subst dec_digits.simps) simp
  qed
qed

lemma dec_digits_nonempty: "dec_digits n \<noteq> []"
  by (subst dec_digits.simps) simp

lemma suffix_facts:
  fixes m :: int
  assumes "0 \<le> m" "m < 100000"
  shows "length (zfill 5 (str_int m)) = 5 \<and> set (zfill 5 (str_int m)) \<subseteq> set ''0123456789''"
proof -
  let ?d = "dec_digits (nat m)"
  have s: "str_int m = ?d" using assms by (simp add: str_int_def)
  have "nat m < 10 ^ 5" using assms by simp
  then have len: "length ?d \<le> 5" by (rule length_dec_digits) simp
  have dig: "set ?d \<subseteq> set ''0123456789''" by (rule set_dec_digits)
  have ne: "?d \<noteq> []" by (rule dec_digits_nonempty)
  then obtain c cs where d: "?d = c # cs" by (cases ?d) auto
  with dig have "c \<in> set ''0123456789''" by auto
  then have nosign: "c \<noteq> CHR ''+'' \<and> c \<noteq> CHR ''-''" by auto
  have z: "zfill 5 ?d = replicate (5 - length ?d) CHR ''0'' @ ?d"
    using len d nosign by (auto simp: zfill_def)
  show ?thesis using z len dig unfolding s by auto
qed

text \<open>
  Claim C10. For every idempotency key, \<^verbatim>\<open>make_cl_ord_id\<close> returns 26 characters: the
  letter Q, then the first 20 hexadecimal digits of the SHA-1 digest of the key (which
  depend on the key only), then 5 decimal digits computed from the call time. Two calls with
  the same key agree on their first 21 characters, whatever the two call times are.
\<close>
theorem make_cl_ord_id_shape:
  "length (make_cl_ord_id L k now) = 26
   \<and> take 1 (make_cl_ord_id L k now) = ''Q''
   \<and> take 20 (drop 1 (make_cl_ord_id L k now)) = take 20 (hexdigest (sha1 L k))
   \<and> set (take 20 (drop 1 (make_cl_ord_id L k now))) \<subseteq> set ''0123456789abcdef''
   \<and> drop 21 (make_cl_ord_id L k now) = zfill 5 (str_int (py_int (now * 1000) mod 100000))
   \<and> length (drop 21 (make_cl_ord_id L k now)) = 5
   \<and> set (drop 21 (make_cl_ord_id L k now)) \<subseteq> set ''0123456789''
   \<and> take 21 (make_cl_ord_id L k now) = take 21 (make_cl_ord_id L k now')"
proof -
  let ?h = "take 20 (hexdigest (sha1 L k))"
  let ?m = "py_int (now * 1000) mod 100000"
  let ?s = "zfill 5 (str_int ?m)"
  have lh: "length ?h = 20" by (simp add: length_hexdigest)
  have sh: "set ?h \<subseteq> set ''0123456789abcdef''"
    using set_hexdigest [of "sha1 L k"] set_take_subset [of 20 "hexdigest (sha1 L k)"] by blast
  have m: "0 \<le> ?m" "?m < 100000" by simp_all
  have sf: "length ?s = 5" "set ?s \<subseteq> set ''0123456789''" using suffix_facts [OF m] by simp_all
  have eq: "make_cl_ord_id L k now = CHR ''Q'' # ?h @ ?s" by (simp add: make_cl_ord_id_def Let_def)
  have eq': "make_cl_ord_id L k now' = CHR ''Q'' # ?h @ zfill 5 (str_int (py_int (now' * 1000) mod 100000))"
    by (simp add: make_cl_ord_id_def Let_def)
  show ?thesis unfolding eq eq' using lh sh sf by simp
qed

lemma suffix_42: "zfill 5 (str_int (py_int (1700000000.042 * 1000) mod 100000)) = ''00042''"
  by (simp add: zfill_def str_int_def py_int_def dec_digit_def dec_digits.simps numeral_3_eq_3)

theorem make_cl_ord_id_shape_witness:
  "length (make_cl_ord_id lib0 ''SIG_OPEN_LONG_1'' 1700000000.042) = 26
   \<and> drop 21 (make_cl_ord_id lib0 ''SIG_OPEN_LONG_1'' 1700000000.042) = ''00042''
   \<and> take 21 (make_cl_ord_id lib0 ''SIG_OPEN_LONG_1'' 1700000000.042) = take 21 (make_cl_ord_id lib0 ''SIG_OPEN_LONG_1'' 1700000001.5)"
  using make_cl_ord_id_shape [of lib0 "''SIG_OPEN_LONG_1''" "1700000000.042" "1700000001.5"] suffix_42
  by simp

section \<open>Rounding to a step\<close>
lemma floor_to_step_pos:
  assumes "0 < step" "0 \<le> x"
  shows "(\<exists>k::int. floor_to_step x step = of_int k * step)
     \<and> floor_to_step x step \<le> x
     \<and> (\<forall>k::int. of_int k * step \<le> x \<longrightarrow> of_int k * step \<le> floor_to_step x step)"
proof -
  have q: "0 \<le> x / step" using assms by simp
  have f: "floor_to_step x step = of_int \<lfloor>x / step\<rfloor> * step"
    using assms q by (simp add: floor_to_step_def to_integral_round_down_def)
  have le: "of_int \<lfloor>x / step\<rfloor> * step \<le> x"
  proof -
    have "of_int \<lfloor>x / step\<rfloor> * step \<le> (x / step) * step"
      by (rule mult_right_mono) (use assms in simp_all)
    then show ?thesis using assms(1) by simp
  qed
  have gr: "of_int k * step \<le> of_int \<lfloor>x / step\<rfloor> * step" if "of_int k * step \<le> x" for k :: int
  proof -
    from that assms(1) have "of_int k \<le> x / step" by (simp add: pos_le_divide_eq)
    then have "k \<le> \<lfloor>x / step\<rfloor>" by (simp add: le_floor_iff)
    then have "(of_int k :: real) \<le> of_int \<lfloor>x / step\<rfloor>" by simp
    then show ?thesis using assms(1) by (simp add: mult_right_mono)
  qed
  show ?thesis unfolding f using le gr by blast
qed

text \<open>
  Claim C8, as amended. With \<open>step \<le> 0\<close> the function returns \<open>x\<close> unchanged. With
  \<open>step > 0\<close> and \<open>x \<ge> 0\<close> it returns the greatest multiple of \<open>step\<close> that is at most
  \<open>x\<close>. (The quotient is rounded toward zero, so for negative \<open>x\<close> the result can exceed
  \<open>x\<close>; every caller passes a positive price or size.)
\<close>
theorem floor_to_step_nonneg:
  "(step \<le> 0 \<longrightarrow> floor_to_step x step = x)
   \<and> (0 < step \<and> 0 \<le> x \<longrightarrow>
        (\<exists>k::int. floor_to_step x step = of_int k * step)
        \<and> floor_to_step x step \<le> x
        \<and> (\<forall>k::int. of_int k * step \<le> x \<longrightarrow> of_int k * step \<le> floor_to_step x step))"
  using floor_to_step_pos [of step x] by (simp add: floor_to_step_def)

text \<open>The claim as stated, for every number \<open>x\<close>, fails at \<open>x = -1.5\<close>, \<open>step = 1\<close>: the
  result is \<open>-1\<close>, which is greater than \<open>x\<close>.\<close>
theorem floor_to_step_negative_counterexample:
  "floor_to_step (- 3 / 2) 1 = - 1 \<and> \<not> (floor_to_step (- 3 / 2) 1 \<le> - 3 / 2)"
  by (simp add: floor_to_step_def to_integral_round_down_def)

theorem floor_to_step_nonneg_witness:
  "floor_to_step 0.35 0.1 = 0.3 \<and> floor_to_step 7 0 = 7 \<and> floor_to_step 7 (- 1) = 7"
  using floor_to_step_nonneg [of 0 7] floor_to_step_nonneg [of "- 1" 7] by (simp add: floor_to_step_def to_integral_round_down_def)

section \<open>The margin gate\<close>

text \<open>
  Claim C7. In an evaluation of the margin gate with positive available balance \<open>B\<close> and a
  known positive contract value, the gate passes if and only if the required margin \<open>M\<close> is
  at most \<open>B * r\<close>, where \<open>M\<close> is the value the gate computes for \<open>p * ct * s / L\<close> and \<open>B * r\<close>
  the value it computes for that product (float products and quotient, left to right), and
  \<open>L\<close> and \<open>r\<close> are the leverage and the buffer ratio the gate uses: the configured leverage
  when it is positive, and the configured ratio when it is set and not zero (otherwise 1 and
  0.95). The comparison is not strict: equal computed values pass. When the three products
  and the quotient are exact at these operands, this is the comparison of the exact values.
\<close>
theorem margin_gate_iff:
  assumes "0 < B" and "spec_res = Some (Inr sp)" and "0 < ct_val sp"
  shows "margin_gate L cfg B spec_res p s
           = (fdiv L (fmul L (fmul L p (ct_val sp)) s) (gate_leverage cfg)
                \<le> fmul L B (gate_buffer_ratio cfg))
       \<and> 0 < gate_leverage cfg
       \<and> (\<forall>l. 0 < l \<and> cfg_leverage cfg = Some l \<longrightarrow> gate_leverage cfg = l)
       \<and> (\<forall>r. r \<noteq> 0 \<and> cfg_margin_buffer_ratio cfg = Some r \<longrightarrow> gate_buffer_ratio cfg = r)
       \<and> (fdiv L (fmul L (fmul L p (ct_val sp)) s) (gate_leverage cfg)
            = fmul L B (gate_buffer_ratio cfg) \<longrightarrow> margin_gate L cfg B spec_res p s)
       \<and> (fmul L p (ct_val sp) = p * ct_val sp
            \<and> fmul L (p * ct_val sp) s = p * ct_val sp * s
            \<and> fdiv L (p * ct_val sp * s) (gate_leverage cfg) = p * ct_val sp * s / gate_leverage cfg
            \<and> fmul L B (gate_buffer_ratio cfg) = B * gate_buffer_ratio cfg \<longrightarrow>
          margin_gate L cfg B spec_res p s
            = (p * ct_val sp * s / gate_leverage cfg \<le> B * gate_buffer_ratio cfg))"
  using assms
  by (auto simp: margin_gate_def gate_leverage_def gate_buffer_ratio_def or_num_def Let_def split: option.splits)

theorem margin_gate_iff_witness:
  "margin_gate lib0 cfg0 100 (Some (Inr spec0)) 50000 1
   \<and> 50000 * ct_val spec0 * 1 / gate_leverage cfg0 = 100 * gate_buffer_ratio cfg0
   \<and> \<not> margin_gate lib0 cfg0 100 (Some (Inr spec0)) 50000 2
   \<and> fmul lib_rounding (fmul lib_rounding 0.1 (ct_val spec3)) 3 = 0.9000000000000001
   \<and> fmul lib_rounding 9 (gate_buffer_ratio cfg_unit) = 0.9
   \<and> \<not> margin_gate lib_rounding cfg_unit 9 (Some (Inr spec3)) 0.1 3"
  using margin_gate_iff [of 100 "Some (Inr spec0)" spec0 lib0 cfg0 50000 1]
    margin_gate_iff [of 100 "Some (Inr spec0)" spec0 lib0 cfg0 50000 2]
    margin_gate_iff [of 9 "Some (Inr spec3)" spec3 lib_rounding cfg_unit "0.1" 3]
  by (simp add: cfg0_def spec0_def cfg_unit_def spec3_def lib0_def lib_rounding_def
        gate_leverage_def gate_buffer_ratio_def or_num_def)

section \<open>Signing and classification of REST requests\<close>

lemma py_upper_char_idem: "py_upper_char (py_upper_char c) = py_upper_char c"
  by (simp add: py_upper_char_def)

lemma upper_idem: "upper (upper s) = upper s"
  by (simp add: upper_def py_upper_char_idem)

lemma request_path_inj:
  "query_of L p1 \<noteq> query_of L p2 \<Longrightarrow> request_path_of L path p1 \<noteq> request_path_of L path p2"
  by (auto simp: request_path_of_def Let_def)

text \<open>
  Claim C3. The signature of an authenticated request is the MAC of the concatenation:
  timestamp, upper-cased method, request path with its query string, body; this is the value
  \<^verbatim>\<open>_request\<close> puts in the \<^verbatim>\<open>OK-ACCESS-SIGN\<close> header. Two requests that differ in their query
  string only are signed over different strings, so their signatures differ unless the MAC
  collides on these two strings.
\<close>
theorem signature_covers_query:
  "sign L C ts m rp body = hmac_sha256_b64 L (api_secret C) (ts @ upper m @ rp @ body)
   \<and> (api_key C \<noteq> [] \<and> api_secret C \<noteq> [] \<and> passphrase C \<noteq> [] \<longrightarrow>
        (\<exists>rq. build_request L C ts m path params data True = Inr rq
           \<and> map_of (rq_headers rq) ''OK-ACCESS-TIMESTAMP'' = Some ts
           \<and> map_of (rq_headers rq) ''OK-ACCESS-SIGN'' =
               Some (hmac_sha256_b64 L (api_secret C)
                       (ts @ upper m @ (path @ (if query_of L params \<noteq> [] then ''?'' @ query_of L params else []))
                           @ body_str_of L (upper m) data))))
   \<and> (query_of L p1 \<noteq> query_of L p2 \<longrightarrow>
        prehash ts m (request_path_of L path p1) body \<noteq> prehash ts m (request_path_of L path p2) body
        \<and> ((hmac_sha256_b64 L (api_secret C) (prehash ts m (request_path_of L path p1) body)
             = hmac_sha256_b64 L (api_secret C) (prehash ts m (request_path_of L path p2) body)
             \<longrightarrow> prehash ts m (request_path_of L path p1) body = prehash ts m (request_path_of L path p2) body)
            \<longrightarrow> sign L C ts m (request_path_of L path p1) body \<noteq> sign L C ts m (request_path_of L path p2) body))"
proof -
  have a: "sign L C ts m rp body = hmac_sha256_b64 L (api_secret C) (ts @ upper m @ rp @ body)"
    by (simp add: sign_def prehash_def)
  have b: "\<exists>rq. build_request L C ts m path params data True = Inr rq
           \<and> map_of (rq_headers rq) ''OK-ACCESS-TIMESTAMP'' = Some ts
           \<and> map_of (rq_headers rq) ''OK-ACCESS-SIGN'' =
               Some (hmac_sha256_b64 L (api_secret C)
                       (ts @ upper m @ (path @ (if query_of L params \<noteq> [] then ''?'' @ query_of L params else []))
                           @ body_str_of L (upper m) data))"
    if "api_key C \<noteq> [] \<and> api_secret C \<noteq> [] \<and> passphrase C \<noteq> []"
    using that
    by (simp add: build_request_def Let_def headers_def sign_def prehash_def upper_idem request_path_of_def)
  have c: "prehash ts m (request_path_of L path p1) body \<noteq> prehash ts m (request_path_of L path p2) body"
    if "query_of L p1 \<noteq> query_of L p2"
    using request_path_inj [OF that, of path] by (simp add: prehash_def)
  show ?thesis using a b c by (simp add: sign_def)
qed

theorem signature_covers_query_witness:
  "sign lib0 client0 ''T'' ''get'' (request_path_of lib0 ''/api/v5/trade/order'' [(''instId'', Some ''A'')]) []
     = ''secret/TGET/api/v5/trade/order?instId=A&''
   \<and> sign lib0 client0 ''T'' ''get'' (request_path_of lib0 ''/api/v5/trade/order'' [(''instId'', Some ''B'')]) []
     = ''secret/TGET/api/v5/trade/order?instId=B&''
   \<and> sign lib0 client0 ''T'' ''get'' (request_path_of lib0 ''/api/v5/trade/order'' [(''instId'', Some ''A'')]) []
     \<noteq> sign lib0 client0 ''T'' ''get'' (request_path_of lib0 ''/api/v5/trade/order'' [(''instId'', Some ''B'')]) []"
  using signature_covers_query [of lib0 client0 "''T''" "''get''" _ "[]" "''/api/v5/trade/order''" "[]" "[]"
          "[(''instId'', Some ''A'')]" "[(''instId'', Some ''B'')]"]
  by (simp add: lib0_def client0_def query_of_def request_path_of_def upper_def py_upper_char_def prehash_def)

text \<open>
  Claim C1, as amended. On a path that begins with \<^verbatim>\<open>/api/v5/trade/\<close>, a 2xx reply whose
  envelope code is \<^verbatim>\<open>"0"\<close> and whose first data row carries a non-empty \<^verbatim>\<open>sCode\<close> other than
  \<^verbatim>\<open>"0"\<close> makes \<^verbatim>\<open>_request\<close> raise; it never returns the envelope.
\<close>
theorem trade_substatus_failure_raises:
  assumes "prefix ''/api/v5/trade/'' path"
    and "ce_reply ce = Inr r" and "200 \<le> status_code r" and "status_code r < 300"
    and "r_json r = Some resp" and "e_code resp = Some ''0''"
    and "e_data resp = Some (r0 # rest)" and "r0 ''sCode'' = Some s" and "s \<noteq> []" and "s \<noteq> ''0''"
  shows "classify L C path (ce_reply ce) = Inl (TradeOpFailed s (or_str (r0 ''sMsg'') []) (repr_resp L resp))
       \<and> (\<exists>e. snd (request L C ce method path params data auth) = Inl e)"
proof -
  have c: "classify L C path (ce_reply ce) = Inl (TradeOpFailed s (or_str (r0 ''sMsg'') []) (repr_resp L resp))"
    using assms by (simp add: classify_def or_str_def rows_of_def Let_def)
  show ?thesis
    using c by (cases "build_request L C (ce_ts ce) method path params data auth")
      (simp_all add: request_def Let_def)
qed

theorem trade_substatus_failure_raises_witness:
  "snd (request lib0 client0 (ok_reply [[''sCode'' \<mapsto> ''51008'', ''sMsg'' \<mapsto> ''Insufficient margin'']])
          ''POST'' ''/api/v5/trade/order'' [] [(''instId'', ''BTC-USDT-SWAP'')] True)
   = Inl (TradeOpFailed ''51008'' ''Insufficient margin'' ''{..}'')"
  using trade_substatus_failure_raises [of "''/api/v5/trade/order''" "ok_reply [[''sCode'' \<mapsto> ''51008'', ''sMsg'' \<mapsto> ''Insufficient margin'']]"
     _ _ "[''sCode'' \<mapsto> ''51008'', ''sMsg'' \<mapsto> ''Insufficient margin'']" "[]" "''51008''" lib0 client0 "''POST''" "[]" "[(''instId'', ''BTC-USDT-SWAP'')]" True]
  by (simp add: ok_reply_def request_def build_request_def client0_def Let_def or_str_def lib0_def)

text \<open>The claim as stated, for every \<^verbatim>\<open>sCode\<close> different from \<^verbatim>\<open>"0"\<close>, fails at the empty
  string: \<^verbatim>\<open>str(rows[0].get("sCode") or "0")\<close> is then \<^verbatim>\<open>"0"\<close>, and the envelope is returned.\<close>

theorem empty_substatus_counterexample:
  "prefix ''/api/v5/trade/'' ''/api/v5/trade/order''
   \<and> [''sCode'' \<mapsto> [], ''ordId'' \<mapsto> ''1''] ''sCode'' = Some []
   \<and> [] \<noteq> ''0''
   \<and> snd (request lib0 client0 (ok_reply [[''sCode'' \<mapsto> [], ''ordId'' \<mapsto> ''1'']])
            ''POST'' ''/api/v5/trade/order'' [] [(''instId'', ''BTC-USDT-SWAP'')] True)
       = Inr \<lparr> e_code = Some ''0'', e_msg = Some [],
               e_data = Some [[''sCode'' \<mapsto> [], ''ordId'' \<mapsto> ''1'']] \<rparr>"
  by (simp add: ok_reply_def request_def build_request_def client0_def Let_def or_str_def
        classify_def rows_of_def)

section \<open>Exhaustive order lookup\<close>




lemma pages_Nil: "pages [] = []"
  by (simp add: pages_def)
















section \<open>The account stream breaker\<close>

lemma close_ws_fields [simp]:
  "disabled (close_ws st) = disabled st"
  "login_failures (close_ws st) = login_failures st"
  "max_login_failures (close_ws st) = max_login_failures st"
  "stop_flag (close_ws st) = stop_flag st"
  "connect_attempts (close_ws st) = connect_attempts st"
  by (simp_all add: close_ws_def)

lemma disable_fields [simp]:
  "disabled (disable st r)"
  "login_failures (disable st r) = login_failures st"
  "max_login_failures (disable st r) = max_login_failures st"
  "connect_attempts (disable st r) = connect_attempts st"
  by (simp_all add: disable_def)

lemma subscribe_fields [simp]:
  "disabled (subscribe_after_login st) = disabled st"
  "login_failures (subscribe_after_login st) = login_failures st"
  "max_login_failures (subscribe_after_login st) = max_login_failures st"
  "connect_attempts (subscribe_after_login st) = connect_attempts st"
  by (simp_all add: subscribe_after_login_def)












lemma handle_message_counter:
  "\<not> is_login_ok (OnMessage m) \<Longrightarrow> login_failures st \<le> login_failures (handle_message st m)"
  by (auto simp: handle_message_def is_login_ok_def Let_def split: option.splits)



lemma handle_message_reset:
  "login_failures (handle_message st m) < login_failures st \<Longrightarrow> is_login_ok (OnMessage m)"
  using handle_message_counter [of m st] by auto




section \<open>The portfolio snapshot\<close>

lemma set_pos_sizes [simp]:
  "pos_long (set_pos pf a b) = a" "pos_short (set_pos pf a b) = b"
  "equity (set_pos pf a b) = equity pf" "avail_usdt (set_pos pf a b) = avail_usdt pf"
  by (simp_all add: set_pos_def Let_def)

lemma refresh_pos_account [simp]:
  "equity (fst (refresh_pos L cfg kv now rp pf)) = equity pf"
  "avail_usdt (fst (refresh_pos L cfg kv now rp pf)) = avail_usdt pf"
  by (simp_all add: refresh_pos_def Let_def split: sum.splits)

lemma refresh_fst:
  "fst (refresh L cfg kv now1 now2 re ra rp pf)
     = fst (refresh_pos L cfg kv now2 rp (fst (refresh_account L kv now1 re ra pf)))"
  "snd (refresh L cfg kv now1 now2 re ra rp pf)
     = snd (refresh_account L kv now1 re ra pf)
       @ snd (refresh_pos L cfg kv now2 rp (fst (refresh_account L kv now1 re ra pf)))"
  by (simp_all add: refresh_def split: prod.splits)

lemma refresh_account_cases:
  assumes "ws_eq = get_kv_float L kv ''ws:equity_usd''" "ws_av = get_kv_float L kv ''ws:avail_usdt''"
    and "p = fst (refresh_account L kv now re ra pf)"
    and "eq_ws = (ws_fresh L kv now \<and> ws_eq \<noteq> None)" "av_ws = (ws_fresh L kv now \<and> ws_av \<noteq> None)"
  shows "(eq_ws \<longrightarrow> ws_eq = Some (equity p))"
    "(\<not> eq_ws \<and> re = Inr u \<longrightarrow> equity p = u)"
    "(\<not> eq_ws \<and> re = Inl e \<longrightarrow> equity p = equity pf \<and> avail_usdt p = avail_usdt pf)"
    "((eq_ws \<or> re = Inr u) \<and> av_ws \<longrightarrow> ws_av = Some (avail_usdt p))"
    "((eq_ws \<or> re = Inr u) \<and> \<not> av_ws \<and> ra = Inr v \<longrightarrow> avail_usdt p = v)"
    "((eq_ws \<or> re = Inr u) \<and> \<not> av_ws \<and> ra = Inl e' \<longrightarrow> avail_usdt p = avail_usdt pf)"
    "snd (refresh_account L kv now re ra pf)
       = (if eq_ws then [] else [GetAccountEquity])
         @ (if av_ws \<or> (\<not> eq_ws \<and> (\<exists>e. re = Inl e)) then [] else [GetBalanceUsdt])"
  using assms
  by (auto simp: refresh_account_def Let_def split: option.splits sum.splits)

lemma refresh_pos_cases:
  assumes "pl = get_kv_float L kv ''ws:pos_long''" "ps = get_kv_float L kv ''ws:pos_short''"
    and "inst = strip (or_str (cfg_inst_id cfg) [])"
    and "legacy = (kv ''ws:has_pos'' = Some ''1''
                   \<and> (kv ''ws:pos_side'' = Some ''long'' \<or> kv ''ws:pos_side'' = Some ''short''))"
    and "sz = (case get_kv_float L kv ''ws:pos_sz'' of None \<Rightarrow> 0 | Some x \<Rightarrow> x)"
    and "pos_ws = (ws_fresh L kv now \<and> (pl \<noteq> None \<or> ps \<noteq> None \<or> legacy))"
    and "p = fst (refresh_pos L cfg kv now rp pf)"
  shows "(inst = [] \<longrightarrow> pos_long p = 0 \<and> pos_short p = 0)"
    "(inst \<noteq> [] \<and> ws_fresh L kv now \<and> (pl \<noteq> None \<or> ps \<noteq> None) \<longrightarrow>
        pos_long p = (case pl of None \<Rightarrow> 0 | Some x \<Rightarrow> x)
      \<and> pos_short p = (case ps of None \<Rightarrow> 0 | Some x \<Rightarrow> x))"
    "(inst \<noteq> [] \<and> ws_fresh L kv now \<and> pl = None \<and> ps = None \<and> legacy \<longrightarrow>
        pos_long p = (if kv ''ws:pos_side'' = Some ''long'' then sz else 0)
      \<and> pos_short p = (if kv ''ws:pos_side'' = Some ''short'' then sz else 0))"
    "(inst \<noteq> [] \<and> \<not> pos_ws \<and> rp = Inr resp \<longrightarrow>
        pos_long p = fst (foldl (pos_acc L) (0, 0) (rows_of resp))
      \<and> pos_short p = snd (foldl (pos_acc L) (0, 0) (rows_of resp)))"
    "(inst \<noteq> [] \<and> \<not> pos_ws \<and> rp = Inl e \<longrightarrow> pos_long p = 0 \<and> pos_short p = 0)"
    "snd (refresh_pos L cfg kv now rp pf) = (if inst \<noteq> [] \<and> \<not> pos_ws then [GetPositions] else [])"
  using assms
  by (auto simp: refresh_pos_def Let_def split: sum.splits)

text \<open>
  Claim C9, as amended. In one refresh, equity and available balance are decided field by
  field: a field is the value the stream pushed into the store when the stream timestamp is
  within the freshness window and that value is present, and is pulled from REST otherwise.
  So a stale stream gives both from REST, a fresh stream holding both gives both from the
  store with no REST account call, a fresh stream holding only one of them gives one field
  from each source, and a fresh stream holding neither gives both from REST. When the REST
  call for equity raises, both fields keep their previous values; when the REST call for the
  available balance raises, that field keeps its previous value. Long and short size always
  come together from one source: both from the store when the stream is fresh and holds a
  position entry (\<^verbatim>\<open>ws:pos_long\<close> or \<^verbatim>\<open>ws:pos_short\<close>, a missing one read as 0, or else the
  single-sided entry \<^verbatim>\<open>ws:has_pos\<close>, \<^verbatim>\<open>ws:pos_side\<close>, \<^verbatim>\<open>ws:pos_sz\<close>), and otherwise (a stale stream,
  or a fresh one without a position entry) both from the rows of one REST positions call,
  both zero when that call raises or no instrument is configured. The REST calls made are
  exactly those of the fields pulled.
\<close>

theorem refresh_sources:
  assumes "r = fst (refresh L cfg kv now1 now2 re ra rp pf)"
    and "ws_eq = get_kv_float L kv ''ws:equity_usd''"
    and "ws_av = get_kv_float L kv ''ws:avail_usdt''"
    and "pl = get_kv_float L kv ''ws:pos_long''"
    and "ps = get_kv_float L kv ''ws:pos_short''"
    and "inst = strip (or_str (cfg_inst_id cfg) [])"
    and "legacy = (kv ''ws:has_pos'' = Some ''1''
                   \<and> (kv ''ws:pos_side'' = Some ''long'' \<or> kv ''ws:pos_side'' = Some ''short''))"
    and "sz = (case get_kv_float L kv ''ws:pos_sz'' of None \<Rightarrow> 0 | Some x \<Rightarrow> x)"
    and "eq_ws = (ws_fresh L kv now1 \<and> ws_eq \<noteq> None)"
    and "av_ws = (ws_fresh L kv now1 \<and> ws_av \<noteq> None)"
    and "pos_ws = (ws_fresh L kv now2 \<and> (pl \<noteq> None \<or> ps \<noteq> None \<or> legacy))"
  shows "(eq_ws \<longrightarrow> ws_eq = Some (equity r))
     \<and> (\<not> eq_ws \<and> re = Inr u \<longrightarrow> equity r = u)
     \<and> (\<not> eq_ws \<and> re = Inl e \<longrightarrow> equity r = equity pf \<and> avail_usdt r = avail_usdt pf)
     \<and> ((eq_ws \<or> re = Inr u) \<and> av_ws \<longrightarrow> ws_av = Some (avail_usdt r))
     \<and> ((eq_ws \<or> re = Inr u) \<and> \<not> av_ws \<and> ra = Inr v \<longrightarrow> avail_usdt r = v)
     \<and> ((eq_ws \<or> re = Inr u) \<and> \<not> av_ws \<and> ra = Inl e' \<longrightarrow> avail_usdt r = avail_usdt pf)
     \<and> (inst = [] \<longrightarrow> pos_long r = 0 \<and> pos_short r = 0)
     \<and> (inst \<noteq> [] \<and> ws_fresh L kv now2 \<and> (pl \<noteq> None \<or> ps \<noteq> None) \<longrightarrow>
           pos_long r = (case pl of None \<Rightarrow> 0 | Some x \<Rightarrow> x)
         \<and> pos_short r = (case ps of None \<Rightarrow> 0 | Some x \<Rightarrow> x))
     \<and> (inst \<noteq> [] \<and> ws_fresh L kv now2 \<and> pl = None \<and> ps = None \<and> legacy \<longrightarrow>
           pos_long r = (if kv ''ws:pos_side'' = Some ''long'' then sz else 0)
         \<and> pos_short r = (if kv ''ws:pos_side'' = Some ''short'' then sz else 0))
     \<and> (inst \<noteq> [] \<and> \<not> pos_ws \<and> rp = Inr resp \<longrightarrow>
           pos_long r = fst (foldl (pos_acc L) (0, 0) (rows_of resp))
         \<and> pos_short r = snd (foldl (pos_acc L) (0, 0) (rows_of resp)))
     \<and> (inst \<noteq> [] \<and> \<not> pos_ws \<and> rp = Inl e'' \<longrightarrow> pos_long r = 0 \<and> pos_short r = 0)
     \<and> snd (refresh L cfg kv now1 now2 re ra rp pf)
         = (if eq_ws then [] else [GetAccountEquity])
           @ (if av_ws \<or> (\<not> eq_ws \<and> (\<exists>e. re = Inl e)) then [] else [GetBalanceUsdt])
           @ (if inst \<noteq> [] \<and> \<not> pos_ws then [GetPositions] else [])"
proof -
  let ?p = "fst (refresh_account L kv now1 re ra pf)"
  have r: "r = fst (refresh_pos L cfg kv now2 rp ?p)"
    using assms(1) by (simp add: refresh_fst)
  have eq: "equity r = equity ?p" "avail_usdt r = avail_usdt ?p"
    unfolding r by simp_all
  note A = refresh_account_cases [OF assms(2) assms(3) refl assms(9) assms(10),
      where re = re and ra = ra and pf = pf, folded eq]
  note P = refresh_pos_cases [OF assms(4) assms(5) assms(6) assms(7) assms(8) assms(11) r]
  have c: "snd (refresh L cfg kv now1 now2 re ra rp pf)
         = (if eq_ws then [] else [GetAccountEquity])
           @ (if av_ws \<or> (\<not> eq_ws \<and> (\<exists>e. re = Inl e)) then [] else [GetBalanceUsdt])
           @ (if inst \<noteq> [] \<and> \<not> pos_ws then [GetPositions] else [])"
    unfolding refresh_fst(2) A(7) P(6) by simp
  show ?thesis
    by (intro conjI) (rule A(1) A(2) A(3) A(4) A(5) A(6) P(1) P(2) P(3) P(4) P(5) c)+
qed

text \<open>The claim as stated fails when the stream is fresh and the store holds the pushed
  equity but no pushed available balance: the refresh takes equity 100 from the store and
  available balance 7 from REST (REST equity would have been 50), making one REST account
  call.\<close>

theorem refresh_mixes_sources_counterexample:
  "ws_fresh lib0 [''ws_private:last_uptime'' \<mapsto> ''1000'', ''ws:equity_usd'' \<mapsto> ''100''] 1001
   \<and> get_kv_float lib0 [''ws_private:last_uptime'' \<mapsto> ''1000'', ''ws:equity_usd'' \<mapsto> ''100'']
        ''ws:equity_usd'' = Some 100
   \<and> get_kv_float lib0 [''ws_private:last_uptime'' \<mapsto> ''1000'', ''ws:equity_usd'' \<mapsto> ''100'']
        ''ws:avail_usdt'' = None
   \<and> equity (fst (refresh lib0 cfg0
        [''ws_private:last_uptime'' \<mapsto> ''1000'', ''ws:equity_usd'' \<mapsto> ''100'']
        1001 1001 (Inr 50) (Inr 7) (Inr \<lparr>e_code = Some ''0'', e_msg = None, e_data = Some []\<rparr>)
        portfolio0)) = 100
   \<and> avail_usdt (fst (refresh lib0 cfg0
        [''ws_private:last_uptime'' \<mapsto> ''1000'', ''ws:equity_usd'' \<mapsto> ''100'']
        1001 1001 (Inr 50) (Inr 7) (Inr \<lparr>e_code = Some ''0'', e_msg = None, e_data = Some []\<rparr>)
        portfolio0)) = 7
   \<and> snd (refresh lib0 cfg0
        [''ws_private:last_uptime'' \<mapsto> ''1000'', ''ws:equity_usd'' \<mapsto> ''100'']
        1001 1001 (Inr 50) (Inr 7) (Inr \<lparr>e_code = Some ''0'', e_msg = None, e_data = Some []\<rparr>)
        portfolio0) = [GetBalanceUsdt, GetPositions]"
  by (simp add: refresh_def refresh_account_def refresh_pos_def ws_fresh_def get_kv_float_def
        lib0_def cfg0_def portfolio0_def or_str_def strip_def is_space_def rows_of_def Let_def)

lemma lower_sides: "lower ''long'' = ''long''" "lower ''short'' = ''short''"
  by (simp_all add: lower_def py_lower_char_def)

lemma strip_sides: "strip ''long'' = ''long''" "strip ''short'' = ''short''"
  "strip ''BTC-USDT-SWAP'' = ''BTC-USDT-SWAP''"
  by (simp_all add: strip_def is_space_def)

theorem refresh_sources_witness:
  "(let kv = [''ws_private:last_uptime'' \<mapsto> ''1000'', ''ws:equity_usd'' \<mapsto> ''100'',
              ''ws:avail_usdt'' \<mapsto> ''50'', ''ws:pos_long'' \<mapsto> ''7''];
        rows = \<lparr>e_code = Some ''0'', e_msg = None,
                e_data = Some [[''pos'' \<mapsto> ''1'', ''posSide'' \<mapsto> ''long''],
                               [''pos'' \<mapsto> ''0.5'', ''posSide'' \<mapsto> ''short'']]\<rparr>;
        fresh = refresh lib0 cfg0 kv 1001 1001 (Inr 1) (Inr 7) (Inr rows) portfolio0;
        stale = refresh lib0 cfg0 kv 1006.5 1006.5 (Inr 1) (Inr 7) (Inr rows) portfolio0;
        bare = refresh lib0 cfg0 [''ws_private:last_uptime'' \<mapsto> ''1000''] 1001 1001
                 (Inr 1) (Inr 7) (Inr rows) portfolio0
    in equity (fst fresh) = 100 \<and> avail_usdt (fst fresh) = 50
       \<and> pos_long (fst fresh) = 7 \<and> pos_short (fst fresh) = 0 \<and> snd fresh = []
       \<and> equity (fst stale) = 1 \<and> avail_usdt (fst stale) = 7
       \<and> pos_long (fst stale) = 1 \<and> pos_short (fst stale) = 0.5
       \<and> snd stale = [GetAccountEquity, GetBalanceUsdt, GetPositions]
       \<and> equity (fst bare) = 1 \<and> avail_usdt (fst bare) = 7
       \<and> pos_long (fst bare) = 1 \<and> pos_short (fst bare) = 0.5
       \<and> snd bare = [GetAccountEquity, GetBalanceUsdt, GetPositions])"
proof -
  let ?kv = "[''ws_private:last_uptime'' \<mapsto> ''1000'', ''ws:equity_usd'' \<mapsto> ''100'',
              ''ws:avail_usdt'' \<mapsto> ''50'', ''ws:pos_long'' \<mapsto> ''7'']"
  let ?kb = "[''ws_private:last_uptime'' \<mapsto> ''1000'']"
  let ?rows = "\<lparr>e_code = Some ''0'', e_msg = None,
                e_data = Some [[''pos'' \<mapsto> ''1'', ''posSide'' \<mapsto> ''long''],
                               [''pos'' \<mapsto> ''0.5'', ''posSide'' \<mapsto> ''short'']]\<rparr>"
  have f: "ws_fresh lib0 ?kv 1001" "\<not> ws_fresh lib0 ?kv 1006.5" "ws_fresh lib0 ?kb 1001"
    by (simp_all add: ws_fresh_def get_kv_float_def lib0_def)
  have g: "get_kv_float lib0 ?kv ''ws:equity_usd'' = Some 100"
    "get_kv_float lib0 ?kv ''ws:avail_usdt'' = Some 50"
    "get_kv_float lib0 ?kv ''ws:pos_long'' = Some 7"
    "get_kv_float lib0 ?kv ''ws:pos_short'' = None"
    "get_kv_float lib0 ?kb ''ws:equity_usd'' = None"
    "get_kv_float lib0 ?kb ''ws:avail_usdt'' = None"
    "get_kv_float lib0 ?kb ''ws:pos_long'' = None"
    "get_kv_float lib0 ?kb ''ws:pos_short'' = None"
    by (simp_all add: get_kv_float_def lib0_def)
  have i: "strip (or_str (cfg_inst_id cfg0) []) = ''BTC-USDT-SWAP''"
    by (simp add: cfg0_def or_str_def strip_sides)
  have t: "foldl (pos_acc lib0) (0, 0) (rows_of ?rows) = (1, 0.5)"
    by (simp add: rows_of_def pos_acc_def or_str_def lower_sides strip_sides lib0_def Let_def)
  show ?thesis
    using refresh_sources [OF refl refl refl refl refl refl refl refl refl refl refl,
        where L = lib0 and cfg = cfg0 and kv = ?kv and ?now1.0 = 1001 and ?now2.0 = 1001
          and re = "Inr 1" and ra = "Inr 7" and rp = "Inr ?rows" and pf = portfolio0
          and u = 1 and v = 7 and resp = ?rows]
      refresh_sources [OF refl refl refl refl refl refl refl refl refl refl refl,
        where L = lib0 and cfg = cfg0 and kv = ?kv and ?now1.0 = "1006.5" and ?now2.0 = "1006.5"
          and re = "Inr 1" and ra = "Inr 7" and rp = "Inr ?rows" and pf = portfolio0
          and u = 1 and v = 7 and resp = ?rows]
      refresh_sources [OF refl refl refl refl refl refl refl refl refl refl refl,
        where L = lib0 and cfg = cfg0 and kv = ?kb and ?now1.0 = 1001 and ?now2.0 = 1001
          and re = "Inr 1" and ra = "Inr 7" and rp = "Inr ?rows" and pf = portfolio0
          and u = 1 and v = 7 and resp = ?rows]
      f g i t
    by (simp add: Let_def)
qed

section \<open>The order lifecycle\<close>

subsection \<open>Keys of the ledger are distinct\<close>

lemma pending_key_neq_ts: "a @ '':clOrdId'' \<noteq> b @ '':ts''"
proof
  assume "a @ '':clOrdId'' = b @ '':ts''"
  then have "last (a @ '':clOrdId'') = last (b @ '':ts'')" by simp
  then show False by simp
qed

lemma key_eq [simp]:
  "done_key a = done_key b \<longleftrightarrow> a = b"
  "pending_key a = pending_key b \<longleftrightarrow> a = b"
  "tp_sl_key a = tp_sl_key b \<longleftrightarrow> a = b"
  by (simp_all add: done_key_def pending_key_def tp_sl_key_def)

lemma key_neq [simp]:
  "done_key a \<noteq> pending_key b" "pending_key b \<noteq> done_key a"
  "done_key a \<noteq> pending_ts_key b" "pending_ts_key b \<noteq> done_key a"
  "done_key a \<noteq> tp_sl_key b" "tp_sl_key b \<noteq> done_key a"
  "done_key a \<noteq> ''pending_current_idem''" "''pending_current_idem'' \<noteq> done_key a"
  "done_key a \<noteq> reject_ts_key" "reject_ts_key \<noteq> done_key a"
  "done_key a \<noteq> ''last_trade_ts''" "''last_trade_ts'' \<noteq> done_key a"
  "pending_key a \<noteq> pending_ts_key b" "pending_ts_key b \<noteq> pending_key a"
  "pending_key a \<noteq> tp_sl_key b" "tp_sl_key b \<noteq> pending_key a"
  "pending_key a \<noteq> ''pending_current_idem''" "''pending_current_idem'' \<noteq> pending_key a"
  "pending_key a \<noteq> reject_ts_key" "reject_ts_key \<noteq> pending_key a"
  "pending_key a \<noteq> ''last_trade_ts''" "''last_trade_ts'' \<noteq> pending_key a"
  using pending_key_neq_ts [of a b] pending_key_neq_ts [of b a]
  by (auto simp: done_key_def pending_key_def pending_ts_key_def tp_sl_key_def reject_ts_key_def)

lemma tp_sl_key_neq [simp]:
  "tp_sl_key a \<noteq> pending_ts_key b" "tp_sl_key a \<noteq> ''pending_current_idem''"
  by (simp_all add: tp_sl_key_def pending_ts_key_def)

subsection \<open>Counting calls\<close>

lemma place_count_simps [simp]:
  "place_count k [] = 0"
  "place_count k (c # cs) = (if is_place_for k c then 1 else 0) + place_count k cs"
  "place_count k (cs @ ds) = place_count k cs + place_count k ds"
  by (simp_all add: place_count_def)

lemma algo_count_simps [simp]:
  "algo_count k [] = 0"
  "algo_count k (c # cs) = (if is_algo_for k c then 1 else 0) + algo_count k cs"
  "algo_count k (cs @ ds) = algo_count k cs + algo_count k ds"
  by (simp_all add: algo_count_def)

subsection \<open>Effects of the helpers\<close>

lemma cleanup_pending_lookup [simp]:
  "cleanup_pending kv i (done_key k) = kv (done_key k)"
  "cleanup_pending kv i (pending_key k) = (if k = i then None else kv (pending_key k))"
  "cleanup_pending kv i (tp_sl_key k) = kv (tp_sl_key k)"
  by (simp_all add: cleanup_pending_def del_kv_def)

lemma mark_done_effect [simp]:
  "om_kv (mark_done i st) (done_key k) = (if k = i then Some ''1'' else om_kv st (done_key k))"
  "om_kv (mark_done i st) (pending_key k) = (if k = i then None else om_kv st (pending_key k))"
  "om_kv (mark_done i st) (tp_sl_key k) = om_kv st (tp_sl_key k)"
  "om_calls (mark_done i st) = om_calls st"
  by (simp_all add: mark_done_def set_kv_def)

lemma make_cl_ord_id_nonempty: "make_cl_ord_id L k now \<noteq> []"
  by (simp add: make_cl_ord_id_def Let_def)

lemma tp_sl_call_kind [simp]:
  "is_algo_for k (tp_sl_call cfg idem inst td cl info avg_px sz) = (idem = k)"
  "is_place_for k (tp_sl_call cfg idem inst td cl info avg_px sz) = False"
  by (simp_all add: tp_sl_call_def Let_def split del: if_split)

lemma after_fill_kv_done [simp]:
  "om_kv (after_fill_set_tp_sl L cfg algo_res idem inst td cl info force st) (done_key k)
     = om_kv st (done_key k)"
  by (simp add: after_fill_set_tp_sl_def Let_def set_kv_def split: option.split sum.split)

lemma after_fill_kv_pending [simp]:
  "om_kv (after_fill_set_tp_sl L cfg algo_res idem inst td cl info force st) (pending_key k)
     = om_kv st (pending_key k)"
  by (simp add: after_fill_set_tp_sl_def Let_def set_kv_def split: option.split sum.split)

lemma after_fill_place_count [simp]:
  "place_count k (om_calls (after_fill_set_tp_sl L cfg algo_res idem inst td cl info force st))
     = place_count k (om_calls st)"
  by (simp add: after_fill_set_tp_sl_def Let_def split: option.split sum.split)

lemma after_fill_algo_count [simp]:
  "algo_count k (om_calls (after_fill_set_tp_sl L cfg algo_res idem inst td cl info force st))
     = algo_count k (om_calls st)
       + (if k = idem \<and> tp_sl_due L (om_kv st) idem info force then 1 else 0)"
  by (simp add: after_fill_set_tp_sl_def tp_sl_due_def Let_def split: option.split sum.split)

lemma after_fill_noop:
  "om_kv st (tp_sl_key idem) = Some ''1'' \<Longrightarrow>
   after_fill_set_tp_sl L cfg algo_res idem inst td cl info force st = st"
  by (simp add: after_fill_set_tp_sl_def)

lemma after_fill_flag:
  "om_kv (after_fill_set_tp_sl L cfg algo_res idem inst td cl info force st) (tp_sl_key idem) = Some ''1''
   \<Longrightarrow> om_kv st (tp_sl_key idem) \<noteq> Some ''1''
   \<Longrightarrow> (\<exists>r. algo_res = Inr r)
       \<and> algo_count idem (om_calls (after_fill_set_tp_sl L cfg algo_res idem inst td cl info force st))
           = algo_count idem (om_calls st) + 1"
  by (simp add: after_fill_set_tp_sl_def Let_def set_kv_def split: option.splits sum.splits if_splits)

lemma after_fill_failed_call:
  "algo_res = Inl e \<Longrightarrow>
   om_kv (after_fill_set_tp_sl L cfg algo_res idem inst td cl info force st) = om_kv st"
  by (simp add: after_fill_set_tp_sl_def Let_def split: option.split)

subsection \<open>One reconciliation, one housekeeping pass\<close>

lemma reconcile_effect:
  "om_kv st (done_key k) = Some ''1'' \<Longrightarrow> om_kv (reconcile L cfg env idem cl st) (done_key k) = Some ''1''"
  "place_count k (om_calls (reconcile L cfg env idem cl st)) = place_count k (om_calls st)"
  "algo_count k (om_calls (reconcile L cfg env idem cl st)) \<le> algo_count k (om_calls st) + 1"
  "algo_count k (om_calls (reconcile L cfg env idem cl st)) = algo_count k (om_calls st)
     \<or> (k = idem \<and> om_kv (reconcile L cfg env idem cl st) (done_key k) = Some ''1'')"
  "k \<noteq> idem \<Longrightarrow> om_kv (reconcile L cfg env idem cl st) (pending_key k) = om_kv st (pending_key k)"
  "om_kv (reconcile L cfg env idem cl st) (done_key idem) = Some ''1''
     \<or> om_kv (reconcile L cfg env idem cl st) (pending_key idem) = om_kv st (pending_key idem)"
  by (auto simp: reconcile_def Let_def split: sum.split option.split)

lemma housekeep_effect:
  "is_done k st \<Longrightarrow> is_done k (housekeep L cfg env st)"
  "place_count k (om_calls (housekeep L cfg env st)) = place_count k (om_calls st)"
  "algo_count k (om_calls (housekeep L cfg env st)) \<le> algo_count k (om_calls st) + 1"
  "algo_count k (om_calls (housekeep L cfg env st)) \<noteq> algo_count k (om_calls st)
     \<Longrightarrow> \<not> is_done k st \<and> is_done k (housekeep L cfg env st)"
  "has_pending k st \<Longrightarrow> has_pending k (housekeep L cfg env st) \<or> is_done k (housekeep L cfg env st)"
proof -
  let ?i = "the (om_kv st ''pending_current_idem'')"
  let ?cl = "the (om_kv st (pending_key ?i))"
  note r = reconcile_effect [where L = L and cfg = cfg and env = env and idem = "?i" and cl = "?cl" and st = st]
  show "is_done k st \<Longrightarrow> is_done k (housekeep L cfg env st)"
    using r(1) [of k] by (simp add: housekeep_def is_done_def Let_def)
  show "place_count k (om_calls (housekeep L cfg env st)) = place_count k (om_calls st)"
    using r(2) [of k] by (simp add: housekeep_def Let_def)
  show "algo_count k (om_calls (housekeep L cfg env st)) \<le> algo_count k (om_calls st) + 1"
    using r(3) [of k] by (simp add: housekeep_def Let_def)
  show "algo_count k (om_calls (housekeep L cfg env st)) \<noteq> algo_count k (om_calls st)
     \<Longrightarrow> \<not> is_done k st \<and> is_done k (housekeep L cfg env st)"
    using r(4) [of k] by (auto simp: housekeep_def is_done_def Let_def split: if_splits)
  show "has_pending k st \<Longrightarrow> has_pending k (housekeep L cfg env st) \<or> is_done k (housekeep L cfg env st)"
    using r(5) [of k] r(6)
    by (cases "k = ?i") (auto simp: housekeep_def is_done_def has_pending_def Let_def split: if_splits)
qed

subsection \<open>One signal\<close>

lemma submit_order_effect:
  "om_kv (submit_order L cfg env sg inst td side ps px sz st) (done_key k)
     = (if k = idempotency_key sg \<and> (\<exists>e. se_place env = Inl e) then Some ''1''
        else om_kv st (done_key k))"
  "om_kv (submit_order L cfg env sg inst td side ps px sz st) (pending_key k)
     = (if k = idempotency_key sg
        then (if (\<exists>e. se_place env = Inl e) then None
              else Some (make_cl_ord_id L (idempotency_key sg) (se_t_cl_ord_id env)))
        else om_kv st (pending_key k))"
  "place_count k (om_calls (submit_order L cfg env sg inst td side ps px sz st))
     = place_count k (om_calls st) + (if k = idempotency_key sg then 1 else 0)"
  "algo_count k (om_calls (submit_order L cfg env sg inst td side ps px sz st))
     = algo_count k (om_calls st)"
  by (simp_all add: submit_order_def Let_def set_kv_def split: sum.split)

lemma admission_blocked:
  "kv (done_key (idempotency_key sg)) = Some ''1'' \<or> truthy (kv (pending_key (idempotency_key sg)))
   \<Longrightarrow> admission L cfg env sg bar kv = Ignore"
  by (auto simp: admission_def Let_def)


lemma on_signal_effect:
  "is_done k st \<Longrightarrow> is_done k (on_signal L cfg env sg bar st)"
  "algo_count k (om_calls (on_signal L cfg env sg bar st)) = algo_count k (om_calls st)"
  "place_count k (om_calls (on_signal L cfg env sg bar st)) \<le> place_count k (om_calls st) + 1"
  "place_count k (om_calls (on_signal L cfg env sg bar st)) \<noteq> place_count k (om_calls st)
     \<Longrightarrow> \<not> is_done k st \<and> \<not> has_pending k st
         \<and> (is_done k (on_signal L cfg env sg bar st) \<or> has_pending k (on_signal L cfg env sg bar st))"
  "has_pending k st \<Longrightarrow> has_pending k (on_signal L cfg env sg bar st) \<or> is_done k (on_signal L cfg env sg bar st)"
proof -
  let ?i = "idempotency_key sg"
  note s = submit_order_effect [where L = L and cfg = cfg and env = env and sg = sg and st = st]
  note ne = make_cl_ord_id_nonempty [of L ?i "se_t_cl_ord_id env"]
  note blocked = admission_blocked [of "om_kv st" sg L cfg env bar]
  show "is_done k st \<Longrightarrow> is_done k (on_signal L cfg env sg bar st)"
    by (cases "admission L cfg env sg bar (om_kv st)")
       (simp_all add: on_signal_def is_done_def s set_kv_def)
  show "algo_count k (om_calls (on_signal L cfg env sg bar st)) = algo_count k (om_calls st)"
    by (cases "admission L cfg env sg bar (om_kv st)") (simp_all add: on_signal_def s)
  show "place_count k (om_calls (on_signal L cfg env sg bar st)) \<le> place_count k (om_calls st) + 1"
    by (cases "admission L cfg env sg bar (om_kv st)") (simp_all add: on_signal_def s)
  show "place_count k (om_calls (on_signal L cfg env sg bar st)) \<noteq> place_count k (om_calls st)
     \<Longrightarrow> \<not> is_done k st \<and> \<not> has_pending k st
         \<and> (is_done k (on_signal L cfg env sg bar st) \<or> has_pending k (on_signal L cfg env sg bar st))"
    using ne blocked
    by (cases "admission L cfg env sg bar (om_kv st)")
       (auto simp: on_signal_def is_done_def has_pending_def truthy_def s split: if_splits)
  show "has_pending k st \<Longrightarrow> has_pending k (on_signal L cfg env sg bar st) \<or> is_done k (on_signal L cfg env sg bar st)"
    using ne blocked
    by (cases "admission L cfg env sg bar (om_kv st)"; cases "k = ?i")
       (auto simp: on_signal_def is_done_def has_pending_def truthy_def s set_kv_def split: if_splits)
qed

subsection \<open>Runs\<close>

lemma om_step_effect:
  "is_done k st \<Longrightarrow> is_done k (om_step L cfg st ev)"
  "place_count k (om_calls (om_step L cfg st ev)) \<le> place_count k (om_calls st) + 1"
  "place_count k (om_calls (om_step L cfg st ev)) \<noteq> place_count k (om_calls st)
     \<Longrightarrow> is_done k (om_step L cfg st ev) \<or> has_pending k (om_step L cfg st ev)"
  "is_done k st \<or> has_pending k st \<Longrightarrow>
     place_count k (om_calls (om_step L cfg st ev)) = place_count k (om_calls st)
     \<and> (is_done k (om_step L cfg st ev) \<or> has_pending k (om_step L cfg st ev))"
  "algo_count k (om_calls (om_step L cfg st ev)) \<le> algo_count k (om_calls st) + 1"
  "algo_count k (om_calls (om_step L cfg st ev)) \<noteq> algo_count k (om_calls st)
     \<Longrightarrow> is_done k (om_step L cfg st ev)"
  "is_done k st \<Longrightarrow> algo_count k (om_calls (om_step L cfg st ev)) = algo_count k (om_calls st)"
proof -
  show "is_done k st \<Longrightarrow> is_done k (om_step L cfg st ev)"
    by (cases ev) (simp_all add: on_signal_effect(1) housekeep_effect(1))
  show "place_count k (om_calls (om_step L cfg st ev)) \<le> place_count k (om_calls st) + 1"
    using on_signal_effect(3) [where k = k and L = L and cfg = cfg and st = st]
    by (cases ev) (auto simp: housekeep_effect(2))
  show "place_count k (om_calls (om_step L cfg st ev)) \<noteq> place_count k (om_calls st)
     \<Longrightarrow> is_done k (om_step L cfg st ev) \<or> has_pending k (om_step L cfg st ev)"
    using on_signal_effect(4) [where k = k and L = L and cfg = cfg and st = st]
      housekeep_effect(2) [where k = k and L = L and cfg = cfg and st = st]
    by (cases ev) auto
  show "is_done k st \<or> has_pending k st \<Longrightarrow>
     place_count k (om_calls (om_step L cfg st ev)) = place_count k (om_calls st)
     \<and> (is_done k (om_step L cfg st ev) \<or> has_pending k (om_step L cfg st ev))"
    using on_signal_effect(1,4,5) [where k = k and L = L and cfg = cfg and st = st]
      housekeep_effect(1,2,5) [where k = k and L = L and cfg = cfg and st = st]
    by (cases ev) (simp_all, blast+)
  show "algo_count k (om_calls (om_step L cfg st ev)) \<le> algo_count k (om_calls st) + 1"
    using housekeep_effect(3) [where k = k and L = L and cfg = cfg and st = st]
    by (cases ev) (auto simp: on_signal_effect(2))
  show "algo_count k (om_calls (om_step L cfg st ev)) \<noteq> algo_count k (om_calls st)
     \<Longrightarrow> is_done k (om_step L cfg st ev)"
    using housekeep_effect(4) [where k = k and L = L and cfg = cfg and st = st]
    by (cases ev) (auto simp: on_signal_effect(2))
  show "is_done k st \<Longrightarrow> algo_count k (om_calls (om_step L cfg st ev)) = algo_count k (om_calls st)"
    using housekeep_effect(4) [where k = k and L = L and cfg = cfg and st = st]
    by (cases ev) (auto simp: on_signal_effect(2))
qed

lemma om_run_snoc: "om_run L cfg st (evs @ [ev]) = om_step L cfg (om_run L cfg st evs) ev"
  by (simp add: om_run_def)


lemma algo_invariant:
  "algo_count k (om_calls (om_run L cfg st evs)) \<le> algo_count k (om_calls st) + 1
   \<and> (algo_count k (om_calls (om_run L cfg st evs)) = algo_count k (om_calls st) + 1
        \<longrightarrow> is_done k (om_run L cfg st evs))"
proof (induction evs rule: rev_induct)
  case Nil
  then show ?case by (simp add: om_run_def)
next
  case (snoc ev evs)
  let ?s = "om_run L cfg st evs"
  note e = om_step_effect [where k = k and st = "?s" and L = L and cfg = cfg and ev = ev]
  show ?case
  proof (cases "algo_count k (om_calls ?s) = algo_count k (om_calls st) + 1")
    case True
    with snoc have d: "is_done k ?s" by simp
    from e(7) [OF d] e(1) [OF d] True show ?thesis by (simp add: om_run_snoc)
  next
    case False
    with snoc have le: "algo_count k (om_calls ?s) \<le> algo_count k (om_calls st)" by simp
    show ?thesis
    proof (cases "algo_count k (om_calls (om_step L cfg ?s ev)) = algo_count k (om_calls ?s)")
      case True
      with le show ?thesis by (simp add: om_run_snoc)
    next
      case False
      with e(5) e(6) le show ?thesis by (simp add: om_run_snoc)
    qed
  qed
qed

subsection \<open>Idempotent submission\<close>





subsection \<open>Take-profit and stop-loss are attached at most once\<close>

text \<open>
  Claim C4. Once the flag \<^verbatim>\<open>tp_sl_set:<key>\<close> is \<^verbatim>\<open>"1"\<close>, \<^verbatim>\<open>_after_fill_set_tp_sl\<close> changes
  nothing. The flag is set only by an invocation in which \<^verbatim>\<open>place_tp_sl_algo\<close> was called
  and returned; when the call raises, the ledger is left as it was. One invocation makes the
  call exactly when the flag is not set and the fill has a positive size and price, and
  never more than once. In any run of housekeeping passes and signals, from any state,
  \<^verbatim>\<open>place_tp_sl_algo\<close> is called at most once for a key, and once it has been called the key
  is done.
\<close>

theorem tp_sl_attached_at_most_once:
  "(om_kv st (tp_sl_key idem) = Some ''1'' \<longrightarrow>
      after_fill_set_tp_sl L cfg r idem inst td cl info force st = st)
   \<and> (om_kv (after_fill_set_tp_sl L cfg r idem inst td cl info force st) (tp_sl_key idem) = Some ''1''
        \<and> om_kv st (tp_sl_key idem) \<noteq> Some ''1'' \<longrightarrow>
        (\<exists>resp. r = Inr resp)
        \<and> algo_count idem (om_calls (after_fill_set_tp_sl L cfg r idem inst td cl info force st))
            = algo_count idem (om_calls st) + 1)
   \<and> ((\<exists>e. r = Inl e) \<longrightarrow>
        om_kv (after_fill_set_tp_sl L cfg r idem inst td cl info force st) = om_kv st)
   \<and> algo_count k (om_calls (after_fill_set_tp_sl L cfg r idem inst td cl info force st))
       = algo_count k (om_calls st)
         + (if k = idem \<and> tp_sl_due L (om_kv st) idem info force then 1 else 0)
   \<and> algo_count k (om_calls (om_run L cfg st evs)) \<le> algo_count k (om_calls st) + 1
   \<and> (algo_count k (om_calls (om_run L cfg st evs)) = algo_count k (om_calls st) + 1 \<longrightarrow>
        is_done k (om_run L cfg st evs))"
  using after_fill_noop [of st idem L cfg r inst td cl info force]
    after_fill_flag [of L cfg r idem inst td cl info force st]
    after_fill_failed_call [of r _ L cfg idem inst td cl info force st]
    after_fill_algo_count [of k L cfg r idem inst td cl info force st]
    algo_invariant [of k L cfg st evs]
  by blast

lemma housekeep_idle:
  "om_kv st ''pending_current_idem'' = None \<Longrightarrow> housekeep L cfg env st = st"
  by (simp add: housekeep_def truthy_def)

lemma housekeep_filled0:
  "algo_count ''K'' (om_calls (housekeep lib0 cfg0 filled_env0 pending_state0)) = 1"
  "om_kv (housekeep lib0 cfg0 filled_env0 pending_state0) ''pending_current_idem'' = None"
  "om_kv (housekeep lib0 cfg0 filled_env0 pending_state0) (tp_sl_key ''K'') = Some ''1''"
  "is_done ''K'' (housekeep lib0 cfg0 filled_env0 pending_state0)"
  by (simp_all add: housekeep_def reconcile_def mark_done_def cleanup_pending_def del_kv_def
        set_kv_def after_fill_set_tp_sl_def fill_price_def row_float_def first_row_def rows_of_def
        pending_state0_def filled_env0_def cfg0_def lib0_def truthy_def kv_float0_def
        get_kv_float_def or_num_def or_str_def lower_def py_lower_char_def is_done_def
        done_key_def pending_key_def pending_ts_key_def tp_sl_key_def Let_def)

lemma housekeep_partial0:
  "algo_count ''K'' (om_calls (housekeep lib0 cfg0 partial_env0 pending_state0)) = 1"
  "om_kv (housekeep lib0 cfg0 partial_env0 pending_state0) ''pending_current_idem'' = None"
  "is_done ''K'' (housekeep lib0 cfg0 partial_env0 pending_state0)"
  by (simp_all add: housekeep_def reconcile_def mark_done_def cleanup_pending_def del_kv_def
        set_kv_def after_fill_set_tp_sl_def fill_price_def row_float_def first_row_def rows_of_def
        pending_state0_def partial_env0_def cfg0_def lib0_def truthy_def kv_float0_def
        get_kv_float_def or_num_def or_str_def lower_def py_lower_char_def is_done_def
        done_key_def pending_key_def pending_ts_key_def tp_sl_key_def Let_def)

theorem tp_sl_attached_at_most_once_witness:
  "algo_count ''K'' (om_calls pending_state0) = 0
   \<and> algo_count ''K'' (om_calls (om_run lib0 cfg0 pending_state0
         [Housekeep partial_env0, Housekeep partial_env0, Housekeep filled_env0])) = 1
   \<and> algo_count ''K'' (om_calls (housekeep lib0 cfg0 filled_env0 pending_state0)) = 1
   \<and> is_done ''K'' (housekeep lib0 cfg0 filled_env0 pending_state0)
   \<and> algo_count ''K'' (om_calls (om_run lib0 cfg0 pending_state0
         [Housekeep filled_env0, Housekeep filled_env0, Housekeep filled_env0])) = 1
   \<and> after_fill_set_tp_sl lib0 cfg0 (hk_algo filled_env0) ''K'' ''BTC-USDT-SWAP'' ''isolated'' ''Q1''
        Map.empty None (housekeep lib0 cfg0 filled_env0 pending_state0)
       = housekeep lib0 cfg0 filled_env0 pending_state0"
proof -
  let ?s1 = "housekeep lib0 cfg0 filled_env0 pending_state0"
  have z: "algo_count ''K'' (om_calls pending_state0) = 0" by (simp add: pending_state0_def)
  have idle: "housekeep lib0 cfg0 filled_env0 ?s1 = ?s1"
    by (rule housekeep_idle) (rule housekeep_filled0(2))
  have run: "om_run lib0 cfg0 pending_state0
         [Housekeep filled_env0, Housekeep filled_env0, Housekeep filled_env0] = ?s1"
    by (simp add: om_run_def idle)
  let ?s2 = "housekeep lib0 cfg0 partial_env0 pending_state0"
  have idle2: "housekeep lib0 cfg0 partial_env0 ?s2 = ?s2" "housekeep lib0 cfg0 filled_env0 ?s2 = ?s2"
    by (rule housekeep_idle, rule housekeep_partial0(2))+
  have run2: "om_run lib0 cfg0 pending_state0
         [Housekeep partial_env0, Housekeep partial_env0, Housekeep filled_env0] = ?s2"
    by (simp add: om_run_def idle2)
  show ?thesis
    using tp_sl_attached_at_most_once [of ?s1 "''K''" lib0 cfg0 "hk_algo filled_env0"
            "''BTC-USDT-SWAP''" "''isolated''" "''Q1''" Map.empty None "''K''" "[]"]
      housekeep_filled0 housekeep_partial0 z run run2
    by simp
qed

end
